theory Spec2Isabelle
  imports Main "HOL-Library.Char_ord" "HOL-Library.List_Lexorder" "HOL-Library.AList"
begin

section \<open>Python values, exceptions and dictionaries\<close>

text \<open>
  The report built by \<^verbatim>\<open>PagerData\<close> (src/losspager/io/pagerdata.py) is a nest of
  ordered dictionaries with string keys whose values are strings, numbers, booleans, lists,
  dictionaries and objects handed over by collaborators (timestamps, floating-point numbers,
  city tables). Such a value is a \<open>'a pyval\<close>; \<open>'a\<close> is the type of the collaborators'
  opaque objects, which the class only passes through. An ordered dictionary is an
  association list in insertion order; \<^verbatim>\<open>d[k] = v\<close> is \<open>AList.update k v d\<close>, which
  replaces the value of a key that is present and appends a new key at the end.
  Python compares strings lexicographically by code point: that is the order of
  \<open>string\<close> given by the imported orders on characters and lists.
\<close>

datatype 'a pyval =
    PyNone
  | PyBool bool
  | PyInt int
  | PyStr string
  | PyList "'a pyval list"
  | PyDict "(string \<times> 'a pyval) list"
  | PyObj 'a

datatype key = StrKey string | IntKey int

text \<open>
  The exceptions the class can raise, all of them Python's built-in ones: a global name
  that is not bound, a missing dictionary key, an attribute that was never assigned, a
  local variable read before assignment, a list index out of range, a tuple unpacking of
  the wrong length, and a subscript on a value that has none.
\<close>

datatype error =
    NameError string
  | KeyError key
  | AttributeError string
  | UnboundLocalError string
  | IndexError
  | ValueError
  | TypeError

definition thenE :: "error + 'b \<Rightarrow> ('b \<Rightarrow> error + 'c) \<Rightarrow> error + 'c" where
  "thenE m f = (case m of Inl e \<Rightarrow> Inl e | Inr v \<Rightarrow> f v)"

definition getitem :: "(string \<times> 'v) list \<Rightarrow> string \<Rightarrow> error + 'v" where
  "getitem d k = (case map_of d k of None \<Rightarrow> Inl (KeyError (StrKey k)) | Some v \<Rightarrow> Inr v)"

definition getitem_int :: "(int \<times> 'v) list \<Rightarrow> int \<Rightarrow> error + 'v" where
  "getitem_int d k = (case map_of d k of None \<Rightarrow> Inl (KeyError (IntKey k)) | Some v \<Rightarrow> Inr v)"

definition subscript :: "'a pyval \<Rightarrow> string \<Rightarrow> error + 'a pyval" where
  "subscript v k = (case v of PyDict d \<Rightarrow> getitem d k | _ \<Rightarrow> Inl TypeError)"

text \<open>Reading \<^verbatim>\<open>self._name\<close>: an attribute never assigned raises AttributeError.\<close>

definition getattr :: "string \<Rightarrow> 'v option \<Rightarrow> error + 'v" where
  "getattr name field = (case field of None \<Rightarrow> Inl (AttributeError name) | Some v \<Rightarrow> Inr v)"

text \<open>Indexing a list with a non-negative index: out of range raises IndexError.\<close>

definition list_index :: "'v list \<Rightarrow> nat \<Rightarrow> error + 'v" where
  "list_index xs i = (if i < length xs then Inr (xs ! i) else Inl IndexError)"

text \<open>\<^verbatim>\<open>s.split(c)\<close> for a one-character separator: the pieces between the separators.\<close>

fun str_split :: "char \<Rightarrow> string \<Rightarrow> string list" where
  "str_split c [] = [Nil]"
| "str_split c (x # xs) =
     (if x = c then [] # str_split c xs
      else (case str_split c xs of [] \<Rightarrow> [x # []] | w # ws \<Rightarrow> (x # w) # ws))"

section \<open>Module constants\<close>

definition DATETIMEFMT :: string where
  "DATETIMEFMT = ''%Y-%m-%d %H:%M:%S''"

definition MINEXP :: int where
  "MINEXP = 1000"

definition SOFTWARE_VERSION :: string where
  "SOFTWARE_VERSION = ''2.0b''"

definition EVENT_RADIUS :: int where
  "EVENT_RADIUS = 400"

section \<open>Collaborators\<close>

text \<open>
  The shaking grid, the two loss models and the imported library functions are not part of
  the class: they are taken as parameters. A model result and an exposure table are
  dictionaries from region keys to values; exposure counts are integers.
\<close>

type_synonym 'a pydict = "(string \<times> 'a pyval) list"

type_synonym exposure_table = "(string \<times> int list) list"

record 'a shakegrid_obj =
  getEventDict :: "'a pydict"
  getShakeDict :: "'a pydict"
  getLayer :: "string \<Rightarrow> 'a pyval"

record 'a lossmodel =
  getAlertLevel :: "'a pydict \<Rightarrow> string"
  getCombinedG :: "'a pydict \<Rightarrow> 'a pyval"
  getProbabilities :: "'a pydict \<Rightarrow> 'a pyval \<Rightarrow> 'a pydict"
  getLossRates :: "string \<Rightarrow> int list \<Rightarrow> 'a pyval list"

text \<open>
  \<open>utcnow\<close> is the wall-clock reading of \<^verbatim>\<open>datetime.utcnow()\<close>; \<open>strftime\<close> formats
  a timestamp; \<open>getElapsedString\<close> and \<open>get_local_time\<close> are the impactutils functions;
  \<open>loadFromGeoNames\<close> and \<open>pcities_getCityTable\<close> stand for \<^verbatim>\<open>Cities.loadFromGeoNames\<close>
  and \<^verbatim>\<open>PagerCities(cities, layer).getCityTable(n)\<close>; \<open>selectByRadius\<close> and
  \<open>getHistoricalEvents\<close> are the methods of the default \<^verbatim>\<open>ExpoCat\<close> catalogue.
\<close>

record 'a collaborators =
  utcnow :: "'a pyval"
  strftime :: "'a pyval \<Rightarrow> string \<Rightarrow> string"
  getElapsedString :: "'a pyval \<Rightarrow> 'a pyval \<Rightarrow> 'a pyval"
  get_local_time :: "'a pyval \<Rightarrow> 'a pyval \<Rightarrow> 'a pyval \<Rightarrow> 'a pyval"
  loadFromGeoNames :: "'a pyval \<Rightarrow> 'a pyval"
  pcities_getCityTable :: "'a pyval \<Rightarrow> 'a pyval \<Rightarrow> 'a pyval \<Rightarrow> 'a pyval"
  selectByRadius :: "'a pyval \<Rightarrow> 'a pyval \<Rightarrow> int \<Rightarrow> 'a pyval"
  getHistoricalEvents :: "'a pyval \<Rightarrow> 'a pyval \<Rightarrow> 'a pyval \<Rightarrow> 'a pyval \<Rightarrow> 'a pyval \<Rightarrow> 'a pyval"

section \<open>The PagerData object\<close>

text \<open>
  One field per attribute of the instance. \<^verbatim>\<open>__init__\<close> assigns the report dictionary
  and the four flags only; every other attribute exists once its setter has run, so it is
  an \<open>option\<close>. Methods whose Python name starts with an underscore carry the prefix
  \<open>priv_\<close> here.
\<close>

record 'a PagerData =
  pagerdict :: "'a pydict"
  input_set :: bool
  exposure_set :: bool
  models_set :: bool
  comments_set :: bool
  event_dict :: "'a pydict option"
  shake_dict :: "'a pydict option"
  shakegrid :: "'a shakegrid_obj option"
  pagerversion :: "'a pyval option"
  eventcode :: "'a pyval option"
  maxmmi :: "int option"
  exposure :: "exposure_table option"
  econ_exposure :: "exposure_table option"
  impact1 :: "'a pyval option"
  impact2 :: "'a pyval option"
  struct_comment :: "'a pyval option"
  hist_comment :: "'a pyval option"
  secondary_comment :: "'a pyval option"
  fatmodel :: "'a lossmodel option"
  ecomodel :: "'a lossmodel option"
  fatmodel_results :: "'a pydict option"
  ecomodel_results :: "'a pydict option"
  semi_loss :: "'a pyval option"
  res_fat :: "'a pyval option"
  non_res_fat :: "'a pyval option"
  city_file :: "'a pyval option"
  map_cities :: "'a pyval option"
  nmmi :: "int option"

definition PagerData_init :: "'a PagerData" where
  "PagerData_init =
     \<lparr>pagerdict = [], input_set = False, exposure_set = False, models_set = False,
      comments_set = False, event_dict = None, shake_dict = None, shakegrid = None,
      pagerversion = None, eventcode = None, maxmmi = None, exposure = None,
      econ_exposure = None, impact1 = None, impact2 = None, struct_comment = None,
      hist_comment = None, secondary_comment = None, fatmodel = None, ecomodel = None,
      fatmodel_results = None, ecomodel_results = None, semi_loss = None, res_fat = None,
      non_res_fat = None, city_file = None, map_cities = None, nmmi = None\<rparr>"

subsection \<open>Maximum affected intensity\<close>

text \<open>
  \<^verbatim>\<open>_get_maxmmi\<close>: the loop over \<^verbatim>\<open>range(9,-1,-1)\<close> carries the two locals
  \<^verbatim>\<open>maxmmi\<close> and \<^verbatim>\<open>exp\<close>, unbound (\<open>None\<close>) until assigned. \<^verbatim>\<open>break\<close> ends the
  scan; the \<^verbatim>\<open>return\<close> after the loop reads both locals.
\<close>

fun maxmmi_scan :: "exposure_table \<Rightarrow> nat list \<Rightarrow> int option \<Rightarrow> error + (int option \<times> int option)" where
  "maxmmi_scan ex [] exp = Inr (None, exp)"
| "maxmmi_scan ex (i # is) exp =
     thenE (getitem ex ''TotalExposure'') (\<lambda>tot.
     thenE (list_index tot i) (\<lambda>e.
       if e \<ge> MINEXP then Inr (Some (int i + 1), Some e)
       else maxmmi_scan ex is (Some e)))"

definition priv_get_maxmmi :: "exposure_table \<Rightarrow> error + (int \<times> int)" where
  "priv_get_maxmmi ex =
     thenE (maxmmi_scan ex [9, 8, 7, 6, 5, 4, 3, 2, 1, 0] None) (\<lambda>(m, e).
       case m of
         None \<Rightarrow> Inl (UnboundLocalError ''maxmmi'')
       | Some mm \<Rightarrow> (case e of None \<Rightarrow> Inl (UnboundLocalError ''exp'') | Some ee \<Rightarrow> Inr (mm, ee)))"

subsection \<open>Setters\<close>

definition setInputs :: "'a shakegrid_obj \<Rightarrow> 'a pyval \<Rightarrow> 'a pyval \<Rightarrow> 'a PagerData \<Rightarrow> 'a PagerData" where
  "setInputs sg pver ecode s =
     s\<lparr>event_dict := Some (getEventDict sg), shake_dict := Some (getShakeDict sg),
       shakegrid := Some sg, pagerversion := Some pver, eventcode := Some ecode,
       input_set := True\<rparr>"

text \<open>
  \<^verbatim>\<open>nmmi,self._maxmmi = self._get_maxmmi(exposure)\<close>: the first component of the returned
  pair goes to the local \<^verbatim>\<open>nmmi\<close>, the second to the attribute \<^verbatim>\<open>_maxmmi\<close>. When the
  call raises, nothing has been assigned yet.
\<close>

definition setExposure :: "exposure_table \<Rightarrow> exposure_table \<Rightarrow> 'a PagerData \<Rightarrow> (error + unit) \<times> 'a PagerData" where
  "setExposure ex econ_ex s =
     (case priv_get_maxmmi ex of
        Inl e \<Rightarrow> (Inl e, s)
      | Inr (local_nmmi, second) \<Rightarrow>
          (Inr (), s\<lparr>maxmmi := Some second, exposure := Some ex,
                      econ_exposure := Some econ_ex, exposure_set := True\<rparr>))"

definition setComments :: "'a pyval \<Rightarrow> 'a pyval \<Rightarrow> 'a pyval \<Rightarrow> 'a pyval \<Rightarrow> 'a pyval \<Rightarrow> 'a PagerData \<Rightarrow> 'a PagerData" where
  "setComments i1 i2 sc hc sec s =
     s\<lparr>impact1 := Some i1, impact2 := Some i2, struct_comment := Some sc,
       hist_comment := Some hc, secondary_comment := Some sec, comments_set := True\<rparr>"

definition setModelResults :: "'a lossmodel \<Rightarrow> 'a lossmodel \<Rightarrow> 'a pydict \<Rightarrow> 'a pydict \<Rightarrow> 'a pyval \<Rightarrow> 'a pyval \<Rightarrow> 'a pyval \<Rightarrow> 'a PagerData \<Rightarrow> 'a PagerData" where
  "setModelResults fm em fr er sl rf nrf s =
     s\<lparr>fatmodel := Some fm, ecomodel := Some em, fatmodel_results := Some fr,
       ecomodel_results := Some er, semi_loss := Some sl, res_fat := Some rf,
       non_res_fat := Some nrf, models_set := True\<rparr>"

definition setMapInfo :: "'a pyval \<Rightarrow> 'a pyval \<Rightarrow> 'a PagerData \<Rightarrow> 'a PagerData" where
  "setMapInfo cityfile mapcities s = s\<lparr>city_file := Some cityfile, map_cities := Some mapcities\<rparr>"

subsection \<open>Report sections\<close>

definition priv_getComments :: "'a PagerData \<Rightarrow> error + 'a pyval" where
  "priv_getComments s =
     thenE (getattr ''_impact1'' (impact1 s)) (\<lambda>i1.
     thenE (getattr ''_impact2'' (impact2 s)) (\<lambda>i2.
     thenE (getattr ''_struct_comment'' (struct_comment s)) (\<lambda>sc.
     thenE (getattr ''_hist_comment'' (hist_comment s)) (\<lambda>hc.
     thenE (getattr ''_secondary_comment'' (secondary_comment s)) (\<lambda>sec.
       Inr (PyDict [(''impact1'', i1), (''impact2'', i2), (''struct_comment'', sc),
                    (''historical_comment'', hc), (''secondary_comment'', sec)]))))))"

definition levels :: "(string \<times> int) list" where
  "levels = [(''green'', 0), (''yellow'', 1), (''orange'', 2), (''red'', 3)]"

definition rlevels :: "(int \<times> string) list" where
  "rlevels = [(0, ''green''), (1, ''yellow''), (2, ''orange''), (3, ''red'')]"

text \<open>
  \<^verbatim>\<open>_setPager\<close> in two halves: everything up to the call of \<^verbatim>\<open>_get_maxmmi\<close>, then
  the assignment \<^verbatim>\<open>self._nmmi = nmmi\<close>, which stays when a later line raises, then the
  time strings.
\<close>

definition setPager_head :: "'a collaborators \<Rightarrow> 'a PagerData \<Rightarrow> error + ('a pydict \<times> int)" where
  "setPager_head env s =
     (let process_time = utcnow env;
          pager = [(''software_version'', PyStr SOFTWARE_VERSION),
                   (''processing_time'', PyStr (strftime env process_time DATETIMEFMT))] in
      thenE (getattr ''_pagerversion'' (pagerversion s)) (\<lambda>pver.
      thenE (getattr ''_event_dict'' (event_dict s)) (\<lambda>ed.
      thenE (getitem ed ''event_id'') (\<lambda>evid.
      thenE (getattr ''_eventcode'' (eventcode s)) (\<lambda>ecode.
      thenE (getattr ''_fatmodel'' (fatmodel s)) (\<lambda>fm.
      thenE (getattr ''_fatmodel_results'' (fatmodel_results s)) (\<lambda>fr.
      thenE (getattr ''_ecomodel'' (ecomodel s)) (\<lambda>em.
      thenE (getattr ''_ecomodel_results'' (ecomodel_results s)) (\<lambda>er.
      thenE (getitem levels (getAlertLevel fm fr)) (\<lambda>lf.
      thenE (getitem levels (getAlertLevel em er)) (\<lambda>le.
      thenE (getitem_int rlevels (max lf le)) (\<lambda>alert.
      thenE (getattr ''_exposure'' (exposure s)) (\<lambda>ex.
      thenE (priv_get_maxmmi ex) (\<lambda>(mx, n).
        Inr (pager @ [(''version_number'', pver), (''versioncode'', evid),
                      (''eventcode'', ecode), (''alert_level'', PyStr alert),
                      (''maxmmi'', PyInt mx)], n)))))))))))))))"

definition setPager_tail :: "'a collaborators \<Rightarrow> 'a PagerData \<Rightarrow> 'a pydict \<Rightarrow> error + 'a pyval" where
  "setPager_tail env s pager =
     (let process_time = utcnow env in
      thenE (getattr ''_event_dict'' (event_dict s)) (\<lambda>ed.
      thenE (getitem ed ''event_timestamp'') (\<lambda>origin_time.
      thenE (getitem ed ''lat'') (\<lambda>lat.
      thenE (getitem ed ''lon'') (\<lambda>lon.
        Inr (PyDict (pager @
          [(''elapsed_time'', getElapsedString env origin_time process_time),
           (''local_time_string'',
              PyStr (strftime env (get_local_time env origin_time lat lon) DATETIMEFMT))])))))))"

definition priv_setPager :: "'a collaborators \<Rightarrow> 'a PagerData \<Rightarrow> (error + 'a pyval) \<times> 'a PagerData" where
  "priv_setPager env s =
     (case setPager_head env s of
        Inl e \<Rightarrow> (Inl e, s)
      | Inr (pager, n) \<Rightarrow> (setPager_tail env s pager, s\<lparr>nmmi := Some n\<rparr>))"

definition priv_setEvent :: "'a PagerData \<Rightarrow> error + 'a pyval" where
  "priv_setEvent s =
     thenE (getattr ''_event_dict'' (event_dict s)) (\<lambda>ed.
     thenE (getitem ed ''event_id'') (\<lambda>evid.
     thenE (getitem ed ''event_timestamp'') (\<lambda>etime.
     thenE (getitem ed ''lat'') (\<lambda>lat.
     thenE (getitem ed ''lon'') (\<lambda>lon.
     thenE (getitem ed ''depth'') (\<lambda>depth.
     thenE (getitem ed ''magnitude'') (\<lambda>mag.
     thenE (getattr ''_pagerversion'' (pagerversion s)) (\<lambda>pver.
     thenE (getitem ed ''event_description'') (\<lambda>loc.
       Inr (PyDict [(''eventid'', evid), (''time'', etime), (''lat'', lat), (''lon'', lon),
                    (''depth'', depth), (''mag'', mag), (''version'', pver),
                    (''location'', loc)]))))))))))"

definition priv_setShakeInfo :: "'a PagerData \<Rightarrow> error + 'a pyval" where
  "priv_setShakeInfo s =
     thenE (getattr ''_shake_dict'' (shake_dict s)) (\<lambda>sd.
     thenE (getitem sd ''shakemap_version'') (\<lambda>sv.
     thenE (getitem sd ''code_version'') (\<lambda>cv.
     thenE (getitem sd ''process_timestamp'') (\<lambda>pt.
       Inr (PyDict [(''shake_version'', sv), (''shake_code_version'', cv),
                    (''shake_time'', pt)])))))"

subsection \<open>Alerts\<close>

definition colors :: "(string \<times> string) list" where
  "colors = [(''0-1'', ''green''), (''1-10'', ''yellow''), (''10-100'', ''yellow''),
             (''100-1000'', ''orange''), (''1000-10000'', ''red''),
             (''10000-100000'', ''red''), (''100000-10000000'', ''red'')]"

definition leveldict :: "(string \<times> int) list" where
  "leveldict = [(''green'', 0), (''yellow'', 1), (''orange'', 2), (''red'', 3)]"

definition rleveldict :: "(int \<times> string) list" where
  "rleveldict = [(0, ''green''), (1, ''yellow''), (2, ''orange''), (3, ''red'')]"

text \<open>
  The body of the two loops over \<^verbatim>\<open>fatprobs.items()\<close> and \<^verbatim>\<open>ecoprobs.items()\<close>:
  \<^verbatim>\<open>rmin,rmax = prange.split('-')\<close> needs exactly two pieces, and both stay strings.
\<close>

definition make_bin :: "string \<Rightarrow> 'a pyval \<Rightarrow> error + 'a pyval" where
  "make_bin prange pvalue =
     thenE (getitem colors prange) (\<lambda>color.
       case str_split CHR ''-'' prange of
         [rmin, rmax] \<Rightarrow>
           Inr (PyDict [(''color'', PyStr color), (''min'', PyStr rmin), (''max'', PyStr rmax),
                        (''probability'', pvalue)])
       | _ \<Rightarrow> Inl ValueError)"

fun bins_loop :: "'a pydict \<Rightarrow> 'a pyval list \<Rightarrow> error + 'a pyval list" where
  "bins_loop [] bins = Inr bins"
| "bins_loop ((prange, pvalue) # rest) bins =
     thenE (make_bin prange pvalue) (\<lambda>abin. bins_loop rest (bins @ [abin]))"

definition priv_setAlerts :: "'a PagerData \<Rightarrow> error + 'a pyval" where
  "priv_setAlerts s =
     thenE (getattr ''_fatmodel'' (fatmodel s)) (\<lambda>fm.
     thenE (getattr ''_fatmodel_results'' (fatmodel_results s)) (\<lambda>fr.
     thenE (getattr ''_ecomodel'' (ecomodel s)) (\<lambda>em.
     thenE (getattr ''_ecomodel_results'' (ecomodel_results s)) (\<lambda>er.
     (let fatlevel = getAlertLevel fm fr; ecolevel = getAlertLevel em er in
     thenE (getitem leveldict fatlevel) (\<lambda>lf.
     thenE (getitem_int rleveldict lf) (\<lambda>rf.
     thenE (getitem leveldict ecolevel) (\<lambda>le.
     thenE (getitem_int rleveldict le) (\<lambda>re.
     (let is_fat_summary = (rf > re);
          is_eco_summary = (\<not> is_fat_summary);
          fat_gvalue = getCombinedG fm fr;
          fatality = [(''type'', PyStr ''fatality''), (''units'', PyStr ''fatalities''),
                      (''gvalue'', fat_gvalue), (''summary'', PyBool is_fat_summary),
                      (''level'', PyStr fatlevel)] in
     thenE (bins_loop (getProbabilities fm fr fat_gvalue) []) (\<lambda>fbins.
     (let eco_gvalue = getCombinedG em er;
          economic = [(''type'', PyStr ''economic''), (''units'', PyStr ''USD''),
                      (''gvalue'', eco_gvalue), (''summary'', PyBool is_eco_summary),
                      (''level'', PyStr ecolevel)] in
     thenE (bins_loop (getProbabilities em er eco_gvalue) []) (\<lambda>ebins.
       Inr (PyDict [(''fatality'', PyDict (AList.update ''bins'' (PyList fbins) fatality)),
                    (''economic'', PyDict (AList.update ''bins'' (PyList ebins) economic))]))))))))))))))"

subsection \<open>Exposure and model results\<close>

text \<open>
  The loop of \<^verbatim>\<open>_setPopulationExposure\<close> and of \<^verbatim>\<open>_setEconomicExposure\<close> over the
  items of the table, in the table's order; the two differ in the key they skip.
\<close>

fun country_loop :: "string \<Rightarrow> exposure_table \<Rightarrow> 'a pyval list \<Rightarrow> 'a pyval list" where
  "country_loop total_key [] country_exposures = country_exposures"
| "country_loop total_key ((ccode, exparray) # rest) country_exposures =
     (if ccode = total_key then country_loop total_key rest country_exposures
      else country_loop total_key rest
             (country_exposures @
                [PyDict [(''country_code'', PyStr ccode),
                         (''exposure'', PyList (map PyInt exparray))]]))"

definition priv_setPopulationExposure :: "'a PagerData \<Rightarrow> error + 'a pyval" where
  "priv_setPopulationExposure s =
     thenE (getattr ''_exposure'' (exposure s)) (\<lambda>ex.
     thenE (getitem ex ''TotalExposure'') (\<lambda>tot.
       Inr (PyDict [(''mmi'', PyList (map PyInt [1..10])),
                    (''aggregated_exposure'', PyList (map PyInt tot)),
                    (''country_exposures'', PyList (country_loop ''TotalExposure'' ex []))])))"

definition priv_setEconomicExposure :: "'a PagerData \<Rightarrow> error + 'a pyval" where
  "priv_setEconomicExposure s =
     thenE (getattr ''_econ_exposure'' (econ_exposure s)) (\<lambda>ex.
     thenE (getitem ex ''TotalEconomicExposure'') (\<lambda>tot.
       Inr (PyDict [(''mmi'', PyList (map PyInt [1..10])),
                    (''aggregated_exposure'', PyList (map PyInt tot)),
                    (''country_exposures'', PyList (country_loop ''TotalEconomicExposure'' ex []))])))"

text \<open>
  The two loops of \<^verbatim>\<open>_setModelResults\<close>; the model attribute is read in the loop body,
  for each country, and \<^verbatim>\<open>np.arange(1,11)\<close> is the list of the intensities 1 to 10.
\<close>

fun loss_loop :: "string \<Rightarrow> string \<Rightarrow> string \<Rightarrow> 'a lossmodel option \<Rightarrow> 'a pydict \<Rightarrow> 'a pyval list \<Rightarrow> error + 'a pyval list" where
  "loss_loop total_key attr field model [] rows = Inr rows"
| "loss_loop total_key attr field model ((ccode, loss) # rest) rows =
     (if ccode = total_key then loss_loop total_key attr field model rest rows
      else thenE (getattr attr model) (\<lambda>m.
             loss_loop total_key attr field model rest
               (rows @ [PyDict [(''country_code'', PyStr ccode),
                                (''rates'', PyList (getLossRates m ccode [1..10])),
                                (field, loss)]])))"

definition priv_setModelResults :: "'a PagerData \<Rightarrow> error + 'a pyval" where
  "priv_setModelResults s =
     thenE (getattr ''_fatmodel_results'' (fatmodel_results s)) (\<lambda>fr.
     thenE (getitem fr ''TotalFatalities'') (\<lambda>total_fatalities.
     thenE (loss_loop ''TotalFatalities'' ''_fatmodel'' ''fatalities'' (fatmodel s) fr []) (\<lambda>country_deaths.
     thenE (getattr ''_ecomodel_results'' (ecomodel_results s)) (\<lambda>er.
     thenE (getitem er ''TotalDollars'') (\<lambda>total_dollars.
     thenE (loss_loop ''TotalDollars'' ''_ecomodel'' ''us_dollars'' (ecomodel s) er []) (\<lambda>country_dollars.
     thenE (getattr ''_semi_loss'' (semi_loss s)) (\<lambda>sl.
     thenE (getattr ''_res_fat'' (res_fat s)) (\<lambda>rf.
     thenE (getattr ''_non_res_fat'' (non_res_fat s)) (\<lambda>nrf.
       Inr (PyDict
         [(''empirical_fatality'',
             PyDict [(''total_fatalities'', total_fatalities),
                     (''country_fatalities'', PyList country_deaths)]),
          (''empirical_economic'',
             PyDict [(''total_dollars'', total_dollars),
                     (''country_dollars'', PyList country_dollars)]),
          (''semi_empirical_fatalities'',
             PyDict [(''fatalities'', sl), (''residental_fatalities'', rf),
                     (''non_residental_fatalities'', nrf)])]))))))))))"

subsection \<open>Historical earthquakes and city table\<close>

definition priv_getHistoricalEarthquakes :: "'a collaborators \<Rightarrow> 'a PagerData \<Rightarrow> error + 'a pyval" where
  "priv_getHistoricalEarthquakes env s =
     thenE (getattr ''_event_dict'' (event_dict s)) (\<lambda>ed.
     thenE (getitem ed ''lat'') (\<lambda>clat.
     thenE (getitem ed ''lon'') (\<lambda>clon.
     (let inbounds = selectByRadius env clat clon EVENT_RADIUS in
     thenE (getitem (pagerdict s) ''pager'') (\<lambda>pager.
     thenE (subscript pager ''maxmmi'') (\<lambda>mx.
     thenE (getattr ''_nmmi'' (nmmi s)) (\<lambda>n.
     thenE (getattr ''_fatmodel_results'' (fatmodel_results s)) (\<lambda>fr.
     thenE (getitem fr ''TotalFatalities'') (\<lambda>deaths.
     thenE (getitem ed ''event_timestamp'') (\<lambda>etime.
       Inr (getHistoricalEvents env inbounds mx (PyInt n) clat clon)))))))))))"

definition priv_getCityTable :: "'a collaborators \<Rightarrow> 'a PagerData \<Rightarrow> error + 'a pyval" where
  "priv_getCityTable env s =
     thenE (getattr ''_city_file'' (city_file s)) (\<lambda>cf.
     (let cities = loadFromGeoNames env cf in
     thenE (getattr ''_shakegrid'' (shakegrid s)) (\<lambda>sg.
     thenE (getattr ''_map_cities'' (map_cities s)) (\<lambda>mc.
       Inr (pcities_getCityTable env cities (getLayer sg ''mmi'') mc)))))"

subsection \<open>validate\<close>

text \<open>
  A method that assigns to the object returns the outcome together with the object as the
  method left it: an exception does not undo the assignments made before it.
  \<open>store k r\<close> is \<^verbatim>\<open>self._pagerdict[k] = r\<close> where computing \<open>r\<close> may have raised.
\<close>

definition store :: "string \<Rightarrow> error + 'a pyval \<Rightarrow> 'a PagerData \<Rightarrow> (error + unit) \<times> 'a PagerData" where
  "store k r s =
     (case r of
        Inl e \<Rightarrow> (Inl e, s)
      | Inr v \<Rightarrow> (Inr (), s\<lparr>pagerdict := AList.update k v (pagerdict s)\<rparr>))"

definition andThen :: "(error + unit) \<times> 'a PagerData \<Rightarrow> ('a PagerData \<Rightarrow> (error + unit) \<times> 'a PagerData) \<Rightarrow> (error + unit) \<times> 'a PagerData" where
  "andThen r f = (case fst r of Inl e \<Rightarrow> r | Inr u \<Rightarrow> f (snd r))"

text \<open>
  \<^verbatim>\<open>raise PagerException(msg)\<close>: the module imports \<^verbatim>\<open>OrderedDict\<close>,
  \<^verbatim>\<open>datetime\<close>, \<^verbatim>\<open>os.path\<close>, \<^verbatim>\<open>etree\<close>, \<^verbatim>\<open>np\<close>, \<^verbatim>\<open>get_local_time\<close>,
  \<^verbatim>\<open>ElapsedTime\<close>, \<^verbatim>\<open>Cities\<close>, \<^verbatim>\<open>ExpoCat\<close> and \<^verbatim>\<open>PagerCities\<close> and defines
  the class \<^verbatim>\<open>PagerData\<close>; the name \<^verbatim>\<open>PagerException\<close> is bound nowhere. Evaluating
  it raises NameError before the message is used, whatever the message is.
\<close>

definition raise_PagerException :: "string \<Rightarrow> error" where
  "raise_PagerException msg = NameError ''PagerException''"

definition validate :: "'a collaborators \<Rightarrow> 'a PagerData \<Rightarrow> (error + unit) \<times> 'a PagerData" where
  "validate env s =
     (if \<not> input_set s then (Inl (raise_PagerException ''You must call setInputs() first.''), s)
      else if \<not> exposure_set s then (Inl (raise_PagerException ''You must call setExposure() first.''), s)
      else if \<not> models_set s then (Inl (raise_PagerException ''You must call setExposure() first.''), s)
      else if \<not> comments_set s then (Inl (raise_PagerException ''You must call setComments() first.''), s)
      else
        andThen (store ''event_info'' (priv_setEvent s) s) (\<lambda>s.
        andThen (store ''pager'' (fst (priv_setPager env s)) (snd (priv_setPager env s))) (\<lambda>s.
        andThen (store ''shake_info'' (priv_setShakeInfo s) s) (\<lambda>s.
        andThen (store ''alerts'' (priv_setAlerts s) s) (\<lambda>s.
        andThen (store ''population_exposure'' (priv_setPopulationExposure s) s) (\<lambda>s.
        andThen (store ''economic_exposure'' (priv_setEconomicExposure s) s) (\<lambda>s.
        andThen (store ''model_results'' (priv_setModelResults s) s) (\<lambda>s.
        andThen (store ''city_table'' (priv_getCityTable env s) s) (\<lambda>s.
        andThen (store ''historical_earthquakes'' (priv_getHistoricalEarthquakes env s) s) (\<lambda>s.
        store ''comments'' (priv_getComments s) s))))))))))"

subsection \<open>Getters\<close>

definition getEventInfo :: "'a PagerData \<Rightarrow> error + 'a pyval" where
  "getEventInfo s = getitem (pagerdict s) ''event_info''"

definition getImpactComments :: "'a PagerData \<Rightarrow> error + ('a pyval \<times> 'a pyval)" where
  "getImpactComments s =
     thenE (getitem (pagerdict s) ''comments'') (\<lambda>c1.
     thenE (subscript c1 ''impact1'') (\<lambda>i1.
     thenE (getitem (pagerdict s) ''comments'') (\<lambda>c2.
     thenE (subscript c2 ''impact2'') (\<lambda>i2. Inr (i1, i2)))))"

definition getSoftwareVersion :: "'a PagerData \<Rightarrow> error + 'a pyval" where
  "getSoftwareVersion s = thenE (getitem (pagerdict s) ''pager'') (\<lambda>p. subscript p ''software_version'')"

definition getElapsed :: "'a PagerData \<Rightarrow> error + 'a pyval" where
  "getElapsed s = thenE (getitem (pagerdict s) ''pager'') (\<lambda>p. subscript p ''elapsed_time'')"

definition getTotalExposure :: "'a PagerData \<Rightarrow> error + 'a pyval" where
  "getTotalExposure s =
     thenE (getitem (pagerdict s) ''population_exposure'') (\<lambda>p. subscript p ''aggregated_exposure'')"

definition getHistoricalTable :: "'a PagerData \<Rightarrow> error + 'a pyval" where
  "getHistoricalTable s = getitem (pagerdict s) ''historical_earthquakes''"

definition getStructureComment :: "'a PagerData \<Rightarrow> error + 'a pyval" where
  "getStructureComment s = thenE (getitem (pagerdict s) ''comments'') (\<lambda>c. subscript c ''struct_comment'')"

definition getHistoricalComment :: "'a PagerData \<Rightarrow> error + 'a pyval" where
  "getHistoricalComment s = thenE (getitem (pagerdict s) ''comments'') (\<lambda>c. subscript c ''historical_comment'')"

definition getCityTable :: "'a PagerData \<Rightarrow> error + 'a pyval" where
  "getCityTable s = getitem (pagerdict s) ''city_table''"

definition getSummaryAlert :: "'a PagerData \<Rightarrow> error + 'a pyval" where
  "getSummaryAlert s = thenE (getitem (pagerdict s) ''pager'') (\<lambda>p. subscript p ''alert_level'')"

section \<open>Reading the report and driving the object\<close>

text \<open>
  \<open>subscripts v [Key k1, Index i, ...]\<close> is the Python expression \<^verbatim>\<open>v[k1][i]...\<close>,
  each step a string key of a dictionary or a position in a list; the finished report is
  the dictionary \<open>PyDict (pagerdict s)\<close>.
\<close>

datatype step = Key string | Index nat

definition list_item :: "'a pyval \<Rightarrow> nat \<Rightarrow> error + 'a pyval" where
  "list_item v i = (case v of PyList xs \<Rightarrow> list_index xs i | _ \<Rightarrow> Inl TypeError)"

fun item :: "'a pyval \<Rightarrow> step \<Rightarrow> error + 'a pyval" where
  "item v (Key k) = subscript v k"
| "item v (Index i) = list_item v i"

fun subscripts :: "'a pyval \<Rightarrow> step list \<Rightarrow> error + 'a pyval" where
  "subscripts v [] = Inr v"
| "subscripts v (st # sts) = thenE (item v st) (\<lambda>w. subscripts w sts)"

text \<open>
  What a caller can do to the object before \<^verbatim>\<open>validate\<close>: any sequence of calls of the
  five setters, starting from a fresh instance. A call of \<^verbatim>\<open>setExposure\<close> that raises
  leaves the object as it was.
\<close>

datatype 'a setter_call =
    SetInputs "'a shakegrid_obj" "'a pyval" "'a pyval"
  | SetExposure exposure_table exposure_table
  | SetComments "'a pyval" "'a pyval" "'a pyval" "'a pyval" "'a pyval"
  | SetModelResults "'a lossmodel" "'a lossmodel" "'a pydict" "'a pydict" "'a pyval" "'a pyval" "'a pyval"
  | SetMapInfo "'a pyval" "'a pyval"

fun call_setter :: "'a PagerData \<Rightarrow> 'a setter_call \<Rightarrow> 'a PagerData" where
  "call_setter s (SetInputs sg pver ecode) = setInputs sg pver ecode s"
| "call_setter s (SetExposure ex econ_ex) = snd (setExposure ex econ_ex s)"
| "call_setter s (SetComments i1 i2 sc hc sec) = setComments i1 i2 sc hc sec s"
| "call_setter s (SetModelResults fm em fr er sl rf nrf) = setModelResults fm em fr er sl rf nrf s"
| "call_setter s (SetMapInfo cityfile mapcities) = setMapInfo cityfile mapcities s"

definition after_setters :: "'a setter_call list \<Rightarrow> 'a PagerData" where
  "after_setters calls = foldl call_setter PagerData_init calls"

section \<open>The specification's vocabulary\<close>

text \<open>
  The specification orders the four alert levels green < yellow < orange < red.
  \<open>spec_severity\<close> is that ordering, written from the specification's words, to be
  compared with what the code computes from its own dictionaries.
\<close>

definition spec_levels :: "string set" where
  "spec_levels = {''green'', ''yellow'', ''orange'', ''red''}"

definition spec_severity :: "string \<Rightarrow> nat" where
  "spec_severity l =
     (if l = ''green'' then 0 else if l = ''yellow'' then 1 else if l = ''orange'' then 2 else 3)"

text \<open>
  The seven fixed range labels of the specification with the colour it assigns to each
  and the text on either side of the hyphen.
\<close>

definition spec_ranges :: "(string \<times> string \<times> string \<times> string) list" where
  "spec_ranges =
     [(''0-1'', ''green'', ''0'', ''1''),
      (''1-10'', ''yellow'', ''1'', ''10''),
      (''10-100'', ''yellow'', ''10'', ''100''),
      (''100-1000'', ''orange'', ''100'', ''1000''),
      (''1000-10000'', ''red'', ''1000'', ''10000''),
      (''10000-100000'', ''red'', ''10000'', ''100000''),
      (''100000-10000000'', ''red'', ''100000'', ''10000000'')]"

definition spec_bin :: "string \<times> 'a pyval \<Rightarrow> 'a pyval" where
  "spec_bin entry =
     (case map_of spec_ranges (fst entry) of
        None \<Rightarrow> PyNone
      | Some (color, lo, hi) \<Rightarrow>
          PyDict [(''color'', PyStr color), (''min'', PyStr lo), (''max'', PyStr hi),
                  (''probability'', snd entry)])"

definition country_row :: "string \<times> int list \<Rightarrow> 'a pyval" where
  "country_row entry =
     PyDict [(''country_code'', PyStr (fst entry)), (''exposure'', PyList (map PyInt (snd entry)))]"

section \<open>A sample run\<close>

text \<open>
  Collaborators and inputs of one concrete run, after the end-to-end scenario of the
  specification: an event at latitude 10 and longitude 120, two countries, loss models
  that report a given alert level and the seven ranges.
\<close>

definition demo_env :: "unit collaborators" where
  "demo_env =
     \<lparr>utcnow = PyStr ''now'', strftime = (\<lambda>t fmt. ''2016-01-01 00:00:00''),
      getElapsedString = (\<lambda>origin now. PyStr ''1 hour''),
      get_local_time = (\<lambda>t lat lon. PyStr ''local''),
      loadFromGeoNames = (\<lambda>f. PyStr ''cities''),
      pcities_getCityTable = (\<lambda>cities layer n. PyList []),
      selectByRadius = (\<lambda>lat lon radius. PyStr ''inbounds''),
      getHistoricalEvents = (\<lambda>inbounds mx n lat lon. PyList [])\<rparr>"

definition demo_grid :: "unit shakegrid_obj" where
  "demo_grid =
     \<lparr>getEventDict =
        [(''event_id'', PyStr ''us2016abcd''), (''event_timestamp'', PyStr ''origin''),
         (''lat'', PyInt 10), (''lon'', PyInt 120), (''depth'', PyInt 15),
         (''magnitude'', PyInt 7), (''event_description'', PyStr ''Luzon'')],
      getShakeDict =
        [(''shakemap_version'', PyInt 1), (''code_version'', PyStr ''3.5''),
         (''process_timestamp'', PyStr ''processed'')],
      getLayer = (\<lambda>name. PyStr ''mmi grid'')\<rparr>"

definition demo_probs :: "unit pydict" where
  "demo_probs =
     [(''0-1'', PyInt 1), (''1-10'', PyInt 0), (''10-100'', PyInt 0), (''100-1000'', PyInt 0),
      (''1000-10000'', PyInt 0), (''10000-100000'', PyInt 0), (''100000-10000000'', PyInt 0)]"

definition demo_model :: "string \<Rightarrow> unit lossmodel" where
  "demo_model level =
     \<lparr>getAlertLevel = (\<lambda>results. level), getCombinedG = (\<lambda>results. PyInt 2),
      getProbabilities = (\<lambda>results g. demo_probs),
      getLossRates = (\<lambda>ccode mmis. map PyInt mmis)\<rparr>"

definition demo_exposure :: "int list \<Rightarrow> exposure_table" where
  "demo_exposure tot = [(''TotalExposure'', tot), (''PH'', tot)]"

definition demo_econ_exposure :: exposure_table where
  "demo_econ_exposure =
     [(''TotalEconomicExposure'', [0, 0, 0, 0, 0, 0, 0, 0, 1200, 0]),
      (''PH'', [0, 0, 0, 0, 0, 0, 0, 0, 1200, 0])]"

definition demo_calls :: "string \<Rightarrow> string \<Rightarrow> int list \<Rightarrow> unit setter_call list" where
  "demo_calls fatlevel ecolevel tot =
     [SetInputs demo_grid (PyInt 1) (PyStr ''us2016abcd''),
      SetExposure (demo_exposure tot) demo_econ_exposure,
      SetModelResults (demo_model fatlevel) (demo_model ecolevel)
        [(''TotalFatalities'', PyInt 3), (''PH'', PyInt 3)]
        [(''TotalDollars'', PyInt 9), (''PH'', PyInt 9)] (PyInt 4) (PyInt 3) (PyInt 1),
      SetComments (PyStr ''impact1'') (PyStr ''impact2'') (PyStr ''struct'') (PyStr ''hist'')
        (PyStr ''secondary'')]"

definition demo_registry :: "string \<Rightarrow> string \<Rightarrow> int list \<Rightarrow> unit PagerData" where
  "demo_registry fatlevel ecolevel tot =
     after_setters (demo_calls fatlevel ecolevel tot @ [SetMapInfo (PyStr ''cities1000.txt'') (PyInt 5)])"

section \<open>Basic facts\<close>

lemma thenE_Inl [simp]: "thenE (Inl e) f = Inl e"
  by (simp add: thenE_def)

lemma thenE_Inr [simp]: "thenE (Inr v) f = f v"
  by (simp add: thenE_def)

lemma thenE_eq_Inr: "thenE m f = Inr y \<longleftrightarrow> (\<exists>v. m = Inr v \<and> f v = Inr y)"
  by (cases m) simp_all

lemma getattr_None [simp]: "getattr n None = Inl (AttributeError n)"
  by (simp add: getattr_def)

lemma getattr_Some [simp]: "getattr n (Some v) = Inr v"
  by (simp add: getattr_def)

lemma getattr_eq_Inr: "getattr n x = Inr v \<longleftrightarrow> x = Some v"
  by (cases x) simp_all

lemma scan_below:
  assumes "map_of ex ''TotalExposure'' = Some tot"
    and "\<forall>i\<in>set is. i < length tot \<and> tot ! i < MINEXP"
  shows "maxmmi_scan ex is e = Inr (None, if is = [] then e else Some (tot ! last is))"
  using assms by (induction "is" arbitrary: e) (auto simp: getitem_def list_index_def)

lemma scan_found:
  assumes "map_of ex ''TotalExposure'' = Some tot"
    and "\<forall>i\<in>set pre. i < length tot \<and> tot ! i < MINEXP"
    and "k < length tot" and "MINEXP \<le> tot ! k"
  shows "maxmmi_scan ex (pre @ k # post) e = Inr (Some (int k + 1), Some (tot ! k))"
  using assms by (induction pre arbitrary: e) (auto simp: getitem_def list_index_def)

lemma get_maxmmi_none:
  assumes "map_of ex ''TotalExposure'' = Some tot" and "length tot = 10"
    and "\<forall>i<10. tot ! i < MINEXP"
  shows "priv_get_maxmmi ex = Inl (UnboundLocalError ''maxmmi'')"
proof -
  have "\<forall>i\<in>set [9, 8, 7, 6, 5, 4, 3, 2, 1, 0::nat]. i < length tot \<and> tot ! i < MINEXP"
    using assms by simp
  from scan_below [OF assms(1) this]
  show ?thesis by (simp add: priv_get_maxmmi_def)
qed

lemma first_hit:
  assumes "\<exists>i\<in>set is. P i"
  shows "\<exists>pre k post. is = pre @ k # post \<and> P k \<and> (\<forall>j\<in>set pre. \<not> P j)"
  using assms
proof (induction "is")
  case Nil
  then show ?case by simp
next
  case (Cons a "is")
  show ?case
  proof (cases "P a")
    case True
    then have "a # is = [] @ a # is \<and> P a \<and> (\<forall>j\<in>set []. \<not> P j)" by simp
    then show ?thesis by blast
  next
    case False
    with Cons obtain pre k post where "is = pre @ k # post" "P k" "\<forall>j\<in>set pre. \<not> P j"
      by auto
    with False have "a # is = (a # pre) @ k # post \<and> P k \<and> (\<forall>j\<in>set (a # pre). \<not> P j)"
      by simp
    then show ?thesis by blast
  qed
qed

lemma get_maxmmi_found:
  assumes tot: "map_of ex ''TotalExposure'' = Some tot" and len: "length tot = 10"
    and ex: "\<exists>i<10. MINEXP \<le> tot ! i"
  shows "\<exists>k<10. priv_get_maxmmi ex = Inr (int k + 1, tot ! k) \<and> MINEXP \<le> tot ! k
           \<and> (\<forall>j<10. MINEXP \<le> tot ! j \<longrightarrow> j \<le> k)"
proof -
  let ?is = "[9, 8, 7, 6, 5, 4, 3, 2, 1, 0::nat]"
  have set_is: "set ?is = {..<10}" by auto arith
  from ex have "\<exists>i\<in>set ?is. MINEXP \<le> tot ! i" unfolding set_is by blast
  from first_hit [of ?is "\<lambda>i. MINEXP \<le> tot ! i", OF this]
  obtain pre k post where split: "?is = pre @ k # post" and hit: "MINEXP \<le> tot ! k"
    and pre: "\<forall>j\<in>set pre. \<not> MINEXP \<le> tot ! j"
    by blast
  have "sorted_wrt (>) ?is" by simp
  then have sw: "sorted_wrt (>) (pre @ k # post)" unfolding split .
  have k10: "k < 10" and pre10: "\<forall>j\<in>set pre. j < 10"
  proof -
    have "set (pre @ k # post) = {..<10}" using split set_is by simp
    then show "k < 10" and "\<forall>j\<in>set pre. j < 10" by auto
  qed
  have post_lt: "\<forall>j\<in>set post. j < k" using sw by (simp add: sorted_wrt_append)
  have scan: "maxmmi_scan ex ?is None = Inr (Some (int k + 1), Some (tot ! k))"
    unfolding split
    by (rule scan_found [OF tot]) (use pre pre10 k10 hit len in auto)
  have top: "\<forall>j<10. MINEXP \<le> tot ! j \<longrightarrow> j \<le> k"
  proof (intro allI impI)
    fix j assume "j < 10" "MINEXP \<le> tot ! j"
    then have "j \<in> set (pre @ k # post)" using split set_is by (metis lessThan_iff)
    then show "j \<le> k" using pre post_lt \<open>MINEXP \<le> tot ! j\<close> by auto
  qed
  from scan have "priv_get_maxmmi ex = Inr (int k + 1, tot ! k)"
    by (simp add: priv_get_maxmmi_def)
  with k10 hit top show ?thesis by blast
qed

section \<open>Maximum affected intensity: the scan\<close>

text \<open>
  C3. For every total population exposure of 10 counts with at least one count of 1000 or
  more, \<^verbatim>\<open>_get_maxmmi\<close> returns the highest bucket index (1 to 10, here \<open>k + 1\<close> for
  the list position \<open>k\<close>) whose count is at least 1000, together with that bucket's
  count. \<^verbatim>\<open>_setPager\<close> stores the two components as \<^verbatim>\<open>pager['maxmmi']\<close> and
  \<^verbatim>\<open>self._nmmi\<close> (lemma \<open>setPager_stores_maxmmi\<close>).
\<close>

theorem get_maxmmi_highest_bucket:
  assumes "map_of ex ''TotalExposure'' = Some tot" and "length tot = 10"
    and "\<exists>i<10. 1000 \<le> tot ! i"
  shows "\<exists>k<10. priv_get_maxmmi ex = Inr (int k + 1, tot ! k) \<and> 1000 \<le> tot ! k
           \<and> (\<forall>j<10. 1000 \<le> tot ! j \<longrightarrow> j \<le> k)"
  using get_maxmmi_found [of ex tot] assms by (simp add: MINEXP_def)

theorem get_maxmmi_highest_bucket_witness:
  "map_of [(''TotalExposure'', [0, 0, 0, 0, 0, 0, 0, 0, 999, 1500])] ''TotalExposure''
      = Some [0, 0, 0, 0, 0, 0, 0, 0, 999, 1500 :: int]
   \<and> length [0, 0, 0, 0, 0, 0, 0, 0, 999, 1500 :: int] = 10
   \<and> (\<exists>i<10. 1000 \<le> [0, 0, 0, 0, 0, 0, 0, 0, 999, 1500 :: int] ! i)
   \<and> priv_get_maxmmi [(''TotalExposure'', [0, 0, 0, 0, 0, 0, 0, 0, 999, 1500])] = Inr (10, 1500)"
proof -
  let ?tot = "[0, 0, 0, 0, 0, 0, 0, 0, 999, 1500 :: int]"
  let ?ex = "[(''TotalExposure'', ?tot)]"
  have h1: "map_of ?ex ''TotalExposure'' = Some ?tot" by simp
  have h2: "length ?tot = 10" by simp
  have "(9::nat) < 10 \<and> 1000 \<le> ?tot ! 9" by simp
  then have h3: "\<exists>i<10. 1000 \<le> ?tot ! i" by blast
  from get_maxmmi_highest_bucket [OF h1 h2 h3]
  obtain k where k: "k < 10" "priv_get_maxmmi ?ex = Inr (int k + 1, ?tot ! k)"
    and top: "\<forall>j<10. 1000 \<le> ?tot ! j \<longrightarrow> j \<le> k"
    by blast
  from top have "(9::nat) < 10 \<longrightarrow> 1000 \<le> ?tot ! 9 \<longrightarrow> 9 \<le> k" by blast
  then have "9 \<le> k" by simp
  with k(1) have "k = 9" by simp
  with k(2) have "priv_get_maxmmi ?ex = Inr (10, 1500)" by simp
  with h1 h2 h3 show ?thesis by blast
qed

text \<open>
  C4. When no bucket reaches 1000 the loop ends without assigning \<^verbatim>\<open>maxmmi\<close>, and the
  \<^verbatim>\<open>return\<close> statement raises UnboundLocalError: on ten zero counts the method does
  not return the pair (1, 0). Lemma \<open>get_maxmmi_none\<close> shows the same for every exposure
  of 10 counts below the threshold.
\<close>

theorem get_maxmmi_all_below_raises:
  "priv_get_maxmmi [(''TotalExposure'', [0, 0, 0, 0, 0, 0, 0, 0, 0, 0])]
     = Inl (UnboundLocalError ''maxmmi'')"
  by (simp add: priv_get_maxmmi_def getitem_def list_index_def MINEXP_def)

section \<open>The structure of a successful validate\<close>

lemma andThen_Inl: "andThen (Inl e, s) f = (Inl e, s)"
  by (simp add: andThen_def)

lemma andThen_Inr: "andThen (Inr u, s) f = f s"
  by (simp add: andThen_def)

lemma store_Inl: "store k (Inl e) s = (Inl e, s)"
  by (simp add: store_def)

lemma store_Inr: "store k (Inr v) s = (Inr (), s\<lparr>pagerdict := AList.update k v (pagerdict s)\<rparr>)"
  by (simp add: store_def)

lemma store_eq_Inr:
  "store k r s = (Inr (), s') \<longleftrightarrow> (\<exists>v. r = Inr v \<and> s' = s\<lparr>pagerdict := AList.update k v (pagerdict s)\<rparr>)"
  by (cases r) (auto simp: store_def)

lemma andThen_store_eq_Inr:
  "andThen (store k r s) f = (Inr (), s') \<longleftrightarrow>
     (\<exists>v. r = Inr v \<and> f (s\<lparr>pagerdict := AList.update k v (pagerdict s)\<rparr>) = (Inr (), s'))"
  by (cases r) (auto simp: store_def andThen_def)

lemma setEvent_indep [simp]:
  "priv_setEvent (s\<lparr>pagerdict := d\<rparr>) = priv_setEvent s"
  "priv_setEvent (s\<lparr>nmmi := n\<rparr>) = priv_setEvent s"
  by (simp_all add: priv_setEvent_def)

lemma setShakeInfo_indep [simp]:
  "priv_setShakeInfo (s\<lparr>pagerdict := d\<rparr>) = priv_setShakeInfo s"
  "priv_setShakeInfo (s\<lparr>nmmi := n\<rparr>) = priv_setShakeInfo s"
  by (simp_all add: priv_setShakeInfo_def)

lemma setAlerts_indep [simp]:
  "priv_setAlerts (s\<lparr>pagerdict := d\<rparr>) = priv_setAlerts s"
  "priv_setAlerts (s\<lparr>nmmi := n\<rparr>) = priv_setAlerts s"
  by (simp_all add: priv_setAlerts_def)

lemma setPopulationExposure_indep [simp]:
  "priv_setPopulationExposure (s\<lparr>pagerdict := d\<rparr>) = priv_setPopulationExposure s"
  "priv_setPopulationExposure (s\<lparr>nmmi := n\<rparr>) = priv_setPopulationExposure s"
  by (simp_all add: priv_setPopulationExposure_def)

lemma setEconomicExposure_indep [simp]:
  "priv_setEconomicExposure (s\<lparr>pagerdict := d\<rparr>) = priv_setEconomicExposure s"
  "priv_setEconomicExposure (s\<lparr>nmmi := n\<rparr>) = priv_setEconomicExposure s"
  by (simp_all add: priv_setEconomicExposure_def)

lemma setModelResults_indep [simp]:
  "priv_setModelResults (s\<lparr>pagerdict := d\<rparr>) = priv_setModelResults s"
  "priv_setModelResults (s\<lparr>nmmi := n\<rparr>) = priv_setModelResults s"
  by (simp_all add: priv_setModelResults_def)

lemma getComments_indep [simp]:
  "priv_getComments (s\<lparr>pagerdict := d\<rparr>) = priv_getComments s"
  "priv_getComments (s\<lparr>nmmi := n\<rparr>) = priv_getComments s"
  by (simp_all add: priv_getComments_def)

lemma getCityTable_indep [simp]:
  "priv_getCityTable env (s\<lparr>pagerdict := d\<rparr>) = priv_getCityTable env s"
  "priv_getCityTable env (s\<lparr>nmmi := n\<rparr>) = priv_getCityTable env s"
  by (simp_all add: priv_getCityTable_def)

lemma setPager_head_indep [simp]:
  "setPager_head env (s\<lparr>pagerdict := d\<rparr>) = setPager_head env s"
  by (simp add: setPager_head_def)

lemma setPager_tail_indep [simp]:
  "setPager_tail env (s\<lparr>pagerdict := d\<rparr>) pg = setPager_tail env s pg"
  by (simp add: setPager_tail_def)

lemma setPager_eq_Inr:
  "priv_setPager env s = (Inr pg, s') \<longleftrightarrow>
     (\<exists>pg0 n. setPager_head env s = Inr (pg0, n) \<and> setPager_tail env s pg0 = Inr pg
        \<and> s' = s\<lparr>nmmi := Some n\<rparr>)"
  by (cases "setPager_head env s") (auto simp: priv_setPager_def)

lemma fst_setPager_indep [simp]:
  "fst (priv_setPager env (s\<lparr>pagerdict := d\<rparr>)) = fst (priv_setPager env s)"
  by (cases "setPager_head env s") (auto simp: priv_setPager_def)

lemma snd_setPager_indep [simp]:
  "snd (priv_setPager env (s\<lparr>pagerdict := d\<rparr>)) = (snd (priv_setPager env s))\<lparr>pagerdict := d\<rparr>"
  by (cases "setPager_head env s") (auto simp: priv_setPager_def)

lemma snd_setPager_fields:
  "fst (priv_setPager env s) = Inr pg \<Longrightarrow> \<exists>pg0 n. setPager_head env s = Inr (pg0, n) \<and> setPager_tail env s pg0 = Inr pg \<and> snd (priv_setPager env s) = s\<lparr>nmmi := Some n\<rparr>"
  by (cases "setPager_head env s") (auto simp: priv_setPager_def)

lemma validate_InrD:
  assumes "validate env s = (Inr (), s')"
  shows "\<exists>ev pg0 n pg sh al pe ee mr ct he cm.
     priv_setEvent s = Inr ev \<and> setPager_head env s = Inr (pg0, n)
     \<and> setPager_tail env s pg0 = Inr pg \<and> priv_setShakeInfo s = Inr sh
     \<and> priv_setAlerts s = Inr al \<and> priv_setPopulationExposure s = Inr pe
     \<and> priv_setEconomicExposure s = Inr ee \<and> priv_setModelResults s = Inr mr
     \<and> priv_getCityTable env s = Inr ct \<and> priv_getComments s = Inr cm
     \<and> s' = s\<lparr>nmmi := Some n,
              pagerdict :=
                AList.update ''comments'' cm
                 (AList.update ''historical_earthquakes'' he
                 (AList.update ''city_table'' ct
                 (AList.update ''model_results'' mr
                 (AList.update ''economic_exposure'' ee
                 (AList.update ''population_exposure'' pe
                 (AList.update ''alerts'' al
                 (AList.update ''shake_info'' sh
                 (AList.update ''pager'' pg
                 (AList.update ''event_info'' ev (pagerdict s))))))))))\<rparr>"
proof -
  from assms have flags: "input_set s" "exposure_set s" "models_set s" "comments_set s"
    by (auto simp: validate_def split: if_splits)
  from assms flags obtain ev where ev: "priv_setEvent s = Inr ev"
    and r1: "andThen (store ''pager'' (fst (priv_setPager env s))
                 ((snd (priv_setPager env s))\<lparr>pagerdict := AList.update ''event_info'' ev (pagerdict s)\<rparr>))
        (\<lambda>s.
        andThen (store ''shake_info'' (priv_setShakeInfo s) s) (\<lambda>s.
        andThen (store ''alerts'' (priv_setAlerts s) s) (\<lambda>s.
        andThen (store ''population_exposure'' (priv_setPopulationExposure s) s) (\<lambda>s.
        andThen (store ''economic_exposure'' (priv_setEconomicExposure s) s) (\<lambda>s.
        andThen (store ''model_results'' (priv_setModelResults s) s) (\<lambda>s.
        andThen (store ''city_table'' (priv_getCityTable env s) s) (\<lambda>s.
        andThen (store ''historical_earthquakes'' (priv_getHistoricalEarthquakes env s) s) (\<lambda>s.
        store ''comments'' (priv_getComments s) s)))))))) = (Inr (), s')"
    by (auto simp: validate_def andThen_store_eq_Inr)
  from r1 obtain pg where pg: "fst (priv_setPager env s) = Inr pg"
    by (auto simp: andThen_store_eq_Inr)
  from snd_setPager_fields [OF pg] obtain pg0 n where
    head: "setPager_head env s = Inr (pg0, n)" and tail: "setPager_tail env s pg0 = Inr pg"
    and snd: "snd (priv_setPager env s) = s\<lparr>nmmi := Some n\<rparr>"
    by blast
  from r1 pg snd ev head tail show ?thesis
    by (simp add: andThen_store_eq_Inr store_eq_Inr) blast
qed


lemma validate_sections:
  assumes "validate env s = (Inr (), s')"
  shows "\<exists>pg0 n pg al pe ee.
     setPager_head env s = Inr (pg0, n) \<and> setPager_tail env s pg0 = Inr pg
     \<and> priv_setAlerts s = Inr al \<and> priv_setPopulationExposure s = Inr pe
     \<and> priv_setEconomicExposure s = Inr ee
     \<and> getitem (pagerdict s') ''pager'' = Inr pg
     \<and> getitem (pagerdict s') ''alerts'' = Inr al
     \<and> getitem (pagerdict s') ''population_exposure'' = Inr pe
     \<and> getitem (pagerdict s') ''economic_exposure'' = Inr ee
     \<and> nmmi s' = Some n"
proof -
  from validate_InrD [OF assms] obtain ev pg0 n pg sh al pe ee mr ct he cm where
    parts: "setPager_head env s = Inr (pg0, n)" "setPager_tail env s pg0 = Inr pg"
      "priv_setAlerts s = Inr al" "priv_setPopulationExposure s = Inr pe"
      "priv_setEconomicExposure s = Inr ee"
    and s': "s' = s\<lparr>nmmi := Some n,
              pagerdict :=
                AList.update ''comments'' cm
                 (AList.update ''historical_earthquakes'' he
                 (AList.update ''city_table'' ct
                 (AList.update ''model_results'' mr
                 (AList.update ''economic_exposure'' ee
                 (AList.update ''population_exposure'' pe
                 (AList.update ''alerts'' al
                 (AList.update ''shake_info'' sh
                 (AList.update ''pager'' pg
                 (AList.update ''event_info'' ev (pagerdict s))))))))))\<rparr>"
    by blast
  have "getitem (pagerdict s') ''pager'' = Inr pg" "getitem (pagerdict s') ''alerts'' = Inr al"
    "getitem (pagerdict s') ''population_exposure'' = Inr pe"
    "getitem (pagerdict s') ''economic_exposure'' = Inr ee" "nmmi s' = Some n"
    by (simp_all add: s' getitem_def update_conv')
  with parts show ?thesis by (intro exI conjI) assumption+
qed


lemma thenE_weak_cong: "m = m' \<Longrightarrow> thenE m f = thenE m' f"
  by simp

lemma andThen_weak_cong: "r = r' \<Longrightarrow> andThen r f = andThen r' f"
  by simp

lemmas run_defs =
  demo_env_def demo_grid_def demo_probs_def demo_model_def demo_exposure_def
  demo_econ_exposure_def demo_calls_def demo_registry_def after_setters_def
  setMapInfo_def setComments_def setModelResults_def setExposure_def setInputs_def
  PagerData_init_def priv_get_maxmmi_def getitem_def getitem_int_def list_index_def
  subscript_def list_item_def MINEXP_def SOFTWARE_VERSION_def DATETIMEFMT_def EVENT_RADIUS_def
  validate_def andThen_Inl andThen_Inr store_Inl store_Inr
  priv_setEvent_def priv_setPager_def setPager_head_def setPager_tail_def
  priv_setShakeInfo_def priv_setAlerts_def make_bin_def colors_def leveldict_def
  rleveldict_def levels_def rlevels_def priv_setPopulationExposure_def
  priv_setEconomicExposure_def priv_setModelResults_def priv_getHistoricalEarthquakes_def
  priv_getCityTable_def priv_getComments_def Let_def

lemma pair_of_fst: "fst p = a \<Longrightarrow> p = (a, snd p)"
  by auto

lemma levels_lookup:
  "l \<in> spec_levels \<Longrightarrow> getitem levels l = Inr (int (spec_severity l))"
  by (auto simp: spec_levels_def levels_def getitem_def spec_severity_def)

lemma levels_lookup_Inr:
  "getitem levels l = Inr v \<Longrightarrow> l \<in> spec_levels \<and> v = int (spec_severity l)"
  by (auto simp: spec_levels_def levels_def getitem_def spec_severity_def split: if_splits)

lemma rlevels_max:
  assumes "f \<in> spec_levels" "e \<in> spec_levels"
  shows "getitem_int rlevels (max (int (spec_severity f)) (int (spec_severity e)))
           = Inr (if spec_severity f < spec_severity e then e else f)"
  using assms by (auto simp: spec_levels_def rlevels_def getitem_int_def spec_severity_def)

lemma setPager_head_alert:
  assumes "setPager_head env s = Inr (pg0, n)"
    and "fatmodel s = Some fm" "fatmodel_results s = Some fr"
    and "ecomodel s = Some em" "ecomodel_results s = Some er"
  shows "getAlertLevel fm fr \<in> spec_levels \<and> getAlertLevel em er \<in> spec_levels
     \<and> map_of pg0 ''alert_level''
         = Some (PyStr (if spec_severity (getAlertLevel fm fr) < spec_severity (getAlertLevel em er)
                        then getAlertLevel em er else getAlertLevel fm fr))"
proof -
  from assms obtain lf le alert where
    lf: "getitem levels (getAlertLevel fm fr) = Inr lf"
    and le: "getitem levels (getAlertLevel em er) = Inr le"
    and al: "getitem_int rlevels (max lf le) = Inr alert"
    and pg: "map_of pg0 ''alert_level'' = Some (PyStr alert)"
    by (auto simp: setPager_head_def Let_def thenE_eq_Inr getattr_eq_Inr)
  from levels_lookup_Inr [OF lf] levels_lookup_Inr [OF le] al pg show ?thesis
    by (simp add: rlevels_max)
qed

lemma setPager_head_maxmmi:
  assumes "setPager_head env s = Inr (pg0, n)" and "exposure s = Some ex"
  shows "\<exists>mx. priv_get_maxmmi ex = Inr (mx, n) \<and> map_of pg0 ''maxmmi'' = Some (PyInt mx)"
  using assms by (auto simp: setPager_head_def Let_def thenE_eq_Inr getattr_eq_Inr)

lemma setPager_tail_keeps:
  assumes "setPager_tail env s pg0 = Inr pg" and "map_of pg0 k = Some v"
  shows "subscript pg k = Inr v"
  using assms
  by (auto simp: setPager_tail_def Let_def thenE_eq_Inr getattr_eq_Inr subscript_def getitem_def
        map_add_find_right)

section \<open>The sample run evaluated\<close>

lemma demo_run_yellow_red:
  "fst (validate demo_env (demo_registry ''yellow'' ''red'' [0, 0, 0, 0, 0, 0, 0, 0, 1200, 0])) = Inr ()"
  by (simp add: run_defs cong: thenE_weak_cong andThen_weak_cong)

lemma demo_models:
  "fatmodel (demo_registry f e tot) = Some (demo_model f)"
  "fatmodel_results (demo_registry f e tot) = Some [(''TotalFatalities'', PyInt 3), (''PH'', PyInt 3)]"
  "ecomodel (demo_registry f e tot) = Some (demo_model e)"
  "ecomodel_results (demo_registry f e tot) = Some [(''TotalDollars'', PyInt 9), (''PH'', PyInt 9)]"
  by (simp_all add: demo_registry_def demo_calls_def after_setters_def setMapInfo_def
        setComments_def setModelResults_def)

lemma demo_run_green_orange:
  "fst (validate demo_env (demo_registry ''green'' ''orange'' [0, 0, 0, 0, 0, 0, 0, 0, 1200, 0])) = Inr ()"
  by (simp add: run_defs cong: thenE_weak_cong andThen_weak_cong)

section \<open>Combined alert level\<close>

text \<open>
  C2. For every pair of fatality and economic alert levels among green, yellow, orange and
  red, the \<^verbatim>\<open>alert_level\<close> of the \<^verbatim>\<open>pager\<close> section of the finished report, which
  is also what \<^verbatim>\<open>getSummaryAlert\<close> returns, is one of the two levels and has the larger
  of their two severities in the order green < yellow < orange < red.
\<close>

theorem pager_alert_level_is_max:
  assumes "validate env s = (Inr (), s')"
    and "fatmodel s = Some fm" and "fatmodel_results s = Some fr"
    and "ecomodel s = Some em" and "ecomodel_results s = Some er"
    and "getAlertLevel fm fr = f" and "getAlertLevel em er = e"
    and "f \<in> spec_levels" and "e \<in> spec_levels"
  shows "\<exists>r. subscripts (PyDict (pagerdict s')) [Key ''pager'', Key ''alert_level''] = Inr (PyStr r)
           \<and> getSummaryAlert s' = Inr (PyStr r)
           \<and> (r = f \<or> r = e)
           \<and> spec_severity r = max (spec_severity f) (spec_severity e)"
proof -
  from validate_InrD [OF assms(1)] obtain ev pg0 n pg sh al pe ee mr ct he cm where
    head: "setPager_head env s = Inr (pg0, n)" and tail: "setPager_tail env s pg0 = Inr pg"
    and s': "s' = s\<lparr>nmmi := Some n,
              pagerdict :=
                AList.update ''comments'' cm
                 (AList.update ''historical_earthquakes'' he
                 (AList.update ''city_table'' ct
                 (AList.update ''model_results'' mr
                 (AList.update ''economic_exposure'' ee
                 (AList.update ''population_exposure'' pe
                 (AList.update ''alerts'' al
                 (AList.update ''shake_info'' sh
                 (AList.update ''pager'' pg
                 (AList.update ''event_info'' ev (pagerdict s))))))))))\<rparr>"
    by blast
  let ?r = "if spec_severity f < spec_severity e then e else f"
  from setPager_head_alert [OF head assms(2-5)] assms(6,7)
  have "map_of pg0 ''alert_level'' = Some (PyStr ?r)" by simp
  from setPager_tail_keeps [OF tail this] have sub: "subscript pg ''alert_level'' = Inr (PyStr ?r)" .
  have pager: "getitem (pagerdict s') ''pager'' = Inr pg"
    by (simp add: s' getitem_def update_conv')
  from pager sub have 1: "subscripts (PyDict (pagerdict s')) [Key ''pager'', Key ''alert_level''] = Inr (PyStr ?r)"
    by (simp add: subscript_def)
  from pager sub have 2: "getSummaryAlert s' = Inr (PyStr ?r)"
    by (simp add: getSummaryAlert_def)
  have 3: "(?r = f \<or> ?r = e) \<and> spec_severity ?r = max (spec_severity f) (spec_severity e)"
    by auto
  from 1 2 3 show ?thesis by blast
qed

theorem pager_alert_level_is_max_witness:
  "getSummaryAlert (snd (validate demo_env (demo_registry ''yellow'' ''red'' [0, 0, 0, 0, 0, 0, 0, 0, 1200, 0])))
     = Inr (PyStr ''red'')"
proof -
  let ?s = "demo_registry ''yellow'' ''red'' [0, 0, 0, 0, 0, 0, 0, 0, 1200, 0]"
  have v: "validate demo_env ?s = (Inr (), snd (validate demo_env ?s))"
    by (rule pair_of_fst [OF demo_run_yellow_red])
  have f: "getAlertLevel (demo_model ''yellow'') [(''TotalFatalities'', PyInt 3), (''PH'', PyInt 3)] = ''yellow''"
    by (simp add: demo_model_def)
  have e: "getAlertLevel (demo_model ''red'') [(''TotalDollars'', PyInt 9), (''PH'', PyInt 9)] = ''red''"
    by (simp add: demo_model_def)
  have lv: "''yellow'' \<in> spec_levels" "''red'' \<in> spec_levels"
    by (simp_all add: spec_levels_def)
  from pager_alert_level_is_max [OF v demo_models f e lv]
  show ?thesis by (auto simp: spec_severity_def)
qed


section \<open>Alerts: the summary group\<close>

lemma leveldict_lookup_Inr:
  "getitem leveldict l = Inr v \<Longrightarrow> l \<in> spec_levels \<and> getitem_int rleveldict v = Inr l"
  by (auto simp: spec_levels_def leveldict_def rleveldict_def getitem_def getitem_int_def
        split: if_splits)

lemma setAlerts_InrD:
  assumes "priv_setAlerts s = Inr al"
    and "fatmodel s = Some fm" and "fatmodel_results s = Some fr"
    and "ecomodel s = Some em" and "ecomodel_results s = Some er"
  shows "\<exists>fbins ebins.
     getAlertLevel fm fr \<in> spec_levels \<and> getAlertLevel em er \<in> spec_levels
     \<and> bins_loop (getProbabilities fm fr (getCombinedG fm fr)) [] = Inr fbins
     \<and> bins_loop (getProbabilities em er (getCombinedG em er)) [] = Inr ebins
     \<and> al = PyDict
         [(''fatality'',
             PyDict [(''type'', PyStr ''fatality''), (''units'', PyStr ''fatalities''),
                     (''gvalue'', getCombinedG fm fr),
                     (''summary'', PyBool (getAlertLevel em er < getAlertLevel fm fr)),
                     (''level'', PyStr (getAlertLevel fm fr)), (''bins'', PyList fbins)]),
          (''economic'',
             PyDict [(''type'', PyStr ''economic''), (''units'', PyStr ''USD''),
                     (''gvalue'', getCombinedG em er),
                     (''summary'', PyBool (\<not> getAlertLevel em er < getAlertLevel fm fr)),
                     (''level'', PyStr (getAlertLevel em er)), (''bins'', PyList ebins)])]"
proof -
  from assms obtain lf rf le re fbins ebins where
    lf: "getitem leveldict (getAlertLevel fm fr) = Inr lf"
    and rf: "getitem_int rleveldict lf = Inr rf"
    and le: "getitem leveldict (getAlertLevel em er) = Inr le"
    and re: "getitem_int rleveldict le = Inr re"
    and fb: "bins_loop (getProbabilities fm fr (getCombinedG fm fr)) [] = Inr fbins"
    and eb: "bins_loop (getProbabilities em er (getCombinedG em er)) [] = Inr ebins"
    and al: "al = PyDict
         [(''fatality'',
             PyDict [(''type'', PyStr ''fatality''), (''units'', PyStr ''fatalities''),
                     (''gvalue'', getCombinedG fm fr),
                     (''summary'', PyBool (re < rf)),
                     (''level'', PyStr (getAlertLevel fm fr)), (''bins'', PyList fbins)]),
          (''economic'',
             PyDict [(''type'', PyStr ''economic''), (''units'', PyStr ''USD''),
                     (''gvalue'', getCombinedG em er),
                     (''summary'', PyBool (\<not> re < rf)),
                     (''level'', PyStr (getAlertLevel em er)), (''bins'', PyList ebins)])]"
    by (auto simp: priv_setAlerts_def Let_def thenE_eq_Inr getattr_eq_Inr)
  from leveldict_lookup_Inr [OF lf] rf have 1: "getAlertLevel fm fr \<in> spec_levels" "rf = getAlertLevel fm fr"
    by simp_all
  from leveldict_lookup_Inr [OF le] re have 2: "getAlertLevel em er \<in> spec_levels" "re = getAlertLevel em er"
    by simp_all
  from 1 2 fb eb al show ?thesis by blast
qed

lemma label_order:
  assumes "f \<in> spec_levels" and "e \<in> spec_levels"
    and "\<not> ((f = ''yellow'' \<and> (e = ''orange'' \<or> e = ''red''))
            \<or> (e = ''yellow'' \<and> (f = ''orange'' \<or> f = ''red'')))"
  shows "(e < f) = (spec_severity e < spec_severity f)"
proof -
  from assms(1) have f: "f = ''green'' \<or> f = ''yellow'' \<or> f = ''orange'' \<or> f = ''red''"
    by (simp add: spec_levels_def)
  from assms(2) have e: "e = ''green'' \<or> e = ''yellow'' \<or> e = ''orange'' \<or> e = ''red''"
    by (simp add: spec_levels_def)
  from f e assms(3) show ?thesis
    by (elim disjE) (simp_all add: spec_severity_def)
qed

text \<open>
  C1 (as the code has it). \<^verbatim>\<open>_setAlerts\<close> sets
  \<^verbatim>\<open>is_fat_summary = rleveldict[leveldict[fatlevel]] > rleveldict[leveldict[ecolevel]]\<close>
  and \<^verbatim>\<open>is_eco_summary = not is_fat_summary\<close>. For every pair of levels among green,
  yellow, orange and red, exactly one of the two groups of the finished report carries
  \<^verbatim>\<open>summary\<close> true. For every pair other than yellow against orange or red, the fatality
  group is the summary exactly when the fatality severity is strictly greater than the
  economic severity; otherwise, ties included, the economic group is the summary. (The
  comparison is made on the labels mapped back to strings; for yellow against orange or red
  nothing is stated here.)
\<close>

theorem summary_group:
  assumes "validate env s = (Inr (), s')"
    and "fatmodel s = Some fm" and "fatmodel_results s = Some fr"
    and "ecomodel s = Some em" and "ecomodel_results s = Some er"
    and "getAlertLevel fm fr = f" and "getAlertLevel em er = e"
    and "f \<in> spec_levels" and "e \<in> spec_levels"
  shows "\<exists>a. subscripts (PyDict (pagerdict s')) [Key ''alerts'', Key ''fatality'', Key ''summary'']
               = Inr (PyBool a)
           \<and> subscripts (PyDict (pagerdict s')) [Key ''alerts'', Key ''economic'', Key ''summary'']
               = Inr (PyBool (\<not> a))
           \<and> (\<not> ((f = ''yellow'' \<and> (e = ''orange'' \<or> e = ''red''))
                  \<or> (e = ''yellow'' \<and> (f = ''orange'' \<or> f = ''red'')))
                \<longrightarrow> a = (spec_severity e < spec_severity f))"
proof -
  from validate_sections [OF assms(1)] obtain al where
    al: "priv_setAlerts s = Inr al" and rep: "getitem (pagerdict s') ''alerts'' = Inr al"
    by blast
  from setAlerts_InrD [OF al assms(2-5), unfolded assms(6,7)] obtain fbins ebins where
    al_eq: "al = PyDict
         [(''fatality'',
             PyDict [(''type'', PyStr ''fatality''), (''units'', PyStr ''fatalities''),
                     (''gvalue'', getCombinedG fm fr),
                     (''summary'', PyBool (e < f)),
                     (''level'', PyStr f), (''bins'', PyList fbins)]),
          (''economic'',
             PyDict [(''type'', PyStr ''economic''), (''units'', PyStr ''USD''),
                     (''gvalue'', getCombinedG em er),
                     (''summary'', PyBool (\<not> e < f)),
                     (''level'', PyStr e), (''bins'', PyList ebins)])]"
    by blast
  have 1: "subscripts (PyDict (pagerdict s')) [Key ''alerts'', Key ''fatality'', Key ''summary'']
             = Inr (PyBool (e < f))"
    using rep by (simp add: subscript_def al_eq getitem_def)
  have 2: "subscripts (PyDict (pagerdict s')) [Key ''alerts'', Key ''economic'', Key ''summary'']
             = Inr (PyBool (\<not> e < f))"
    using rep by (simp add: subscript_def al_eq getitem_def)
  have 3: "\<not> ((f = ''yellow'' \<and> (e = ''orange'' \<or> e = ''red''))
                  \<or> (e = ''yellow'' \<and> (f = ''orange'' \<or> f = ''red'')))
                \<longrightarrow> (e < f) = (spec_severity e < spec_severity f)"
    using label_order [OF assms(8,9)] by blast
  from 1 2 3 show ?thesis by blast
qed

theorem summary_group_witness:
  "subscripts (PyDict (pagerdict (snd (validate demo_env
       (demo_registry ''green'' ''orange'' [0, 0, 0, 0, 0, 0, 0, 0, 1200, 0])))))
     [Key ''alerts'', Key ''fatality'', Key ''summary''] = Inr (PyBool False)
   \<and> subscripts (PyDict (pagerdict (snd (validate demo_env
       (demo_registry ''green'' ''orange'' [0, 0, 0, 0, 0, 0, 0, 0, 1200, 0])))))
     [Key ''alerts'', Key ''economic'', Key ''summary''] = Inr (PyBool True)"
proof -
  let ?s = "demo_registry ''green'' ''orange'' [0, 0, 0, 0, 0, 0, 0, 0, 1200, 0]"
  have v: "validate demo_env ?s = (Inr (), snd (validate demo_env ?s))"
    by (rule pair_of_fst [OF demo_run_green_orange])
  have f: "getAlertLevel (demo_model ''green'') [(''TotalFatalities'', PyInt 3), (''PH'', PyInt 3)] = ''green''"
    by (simp add: demo_model_def)
  have e: "getAlertLevel (demo_model ''orange'') [(''TotalDollars'', PyInt 9), (''PH'', PyInt 9)] = ''orange''"
    by (simp add: demo_model_def)
  have lv: "''green'' \<in> spec_levels" "''orange'' \<in> spec_levels"
    by (simp_all add: spec_levels_def)
  from summary_group [OF v demo_models f e lv]
  obtain a where a: "subscripts (PyDict (pagerdict (snd (validate demo_env ?s))))
        [Key ''alerts'', Key ''fatality'', Key ''summary''] = Inr (PyBool a)"
      "subscripts (PyDict (pagerdict (snd (validate demo_env ?s))))
        [Key ''alerts'', Key ''economic'', Key ''summary''] = Inr (PyBool (\<not> a))"
    and ord: "\<not> ((''green'' = ''yellow'' \<and> (''orange'' = ''orange'' \<or> ''orange'' = ''red''))
                  \<or> (''orange'' = ''yellow'' \<and> (''green'' = ''orange'' \<or> ''green'' = ''red'')))
                \<longrightarrow> a = (spec_severity ''orange'' < spec_severity ''green'')"
    by blast
  from ord have "\<not> a" by (simp add: spec_severity_def)
  with a show ?thesis by simp
qed

text \<open>
  C1 as stated says that a tie makes the fatality group the summary. With both levels
  green the finished report marks the economic group.
\<close>

theorem summary_tie_counterexample:
  "fst (validate demo_env (demo_registry ''green'' ''green'' [0, 0, 0, 0, 0, 0, 0, 0, 1200, 0])) = Inr ()
   \<and> subscripts (PyDict (pagerdict (snd (validate demo_env
       (demo_registry ''green'' ''green'' [0, 0, 0, 0, 0, 0, 0, 0, 1200, 0])))))
     [Key ''alerts'', Key ''fatality'', Key ''summary''] = Inr (PyBool False)
   \<and> subscripts (PyDict (pagerdict (snd (validate demo_env
       (demo_registry ''green'' ''green'' [0, 0, 0, 0, 0, 0, 0, 0, 1200, 0])))))
     [Key ''alerts'', Key ''economic'', Key ''summary''] = Inr (PyBool True)"
  by (simp add: run_defs cong: thenE_weak_cong andThen_weak_cong)

section \<open>Alerts: the probability bins\<close>

lemma make_bin_spec:
  assumes "k \<in> set (map fst spec_ranges)"
  shows "make_bin k p = Inr (spec_bin (k, p))"
proof -
  from assms have "k = ''0-1'' \<or> k = ''1-10'' \<or> k = ''10-100'' \<or> k = ''100-1000''
      \<or> k = ''1000-10000'' \<or> k = ''10000-100000'' \<or> k = ''100000-10000000''"
    by (simp add: spec_ranges_def)
  then show ?thesis
    by (elim disjE) (simp_all add: make_bin_def colors_def getitem_def spec_bin_def spec_ranges_def)
qed

lemma bins_loop_spec:
  assumes "set (map fst probs) \<subseteq> set (map fst spec_ranges)"
  shows "bins_loop probs bins = Inr (bins @ map spec_bin probs)"
  using assms
proof (induction probs arbitrary: bins)
  case Nil
  then show ?case by simp
next
  case (Cons entry probs)
  obtain k p where entry: "entry = (k, p)" by (cases entry)
  with Cons.prems have k: "k \<in> set (map fst spec_ranges)" by simp
  from Cons.prems have "set (map fst probs) \<subseteq> set (map fst spec_ranges)" by simp
  from Cons.IH [OF this] show ?case
    by (simp add: entry make_bin_spec [OF k])
qed

lemma seven_labels:
  assumes "distinct (map fst probs)" and "set (map fst probs) = set (map fst spec_ranges)"
  shows "length probs = 7"
proof -
  have "distinct (map fst spec_ranges)" by (simp add: spec_ranges_def)
  then have "card (set (map fst spec_ranges)) = length (map fst spec_ranges)"
    by (rule distinct_card)
  also have "\<dots> = 7" by (simp add: spec_ranges_def)
  finally have "card (set (map fst probs)) = 7" using assms(2) by simp
  with distinct_card [OF assms(1)] show ?thesis by simp
qed

text \<open>
  C8 (as the code has it). When each model's probability mapping carries exactly the 7
  fixed range labels, each group's \<^verbatim>\<open>bins\<close> list in the finished report has 7 entries,
  one per entry of the mapping and in its order; each entry has the fixed colour of its
  label, the model's probability, and as \<^verbatim>\<open>min\<close> and \<^verbatim>\<open>max\<close> the two pieces of the
  label around the hyphen, left as strings.
\<close>

theorem alert_bins:
  assumes "validate env s = (Inr (), s')"
    and "fatmodel s = Some fm" and "fatmodel_results s = Some fr"
    and "ecomodel s = Some em" and "ecomodel_results s = Some er"
    and "getProbabilities fm fr (getCombinedG fm fr) = fatprobs"
    and "getProbabilities em er (getCombinedG em er) = ecoprobs"
    and "distinct (map fst fatprobs)" and "set (map fst fatprobs) = set (map fst spec_ranges)"
    and "distinct (map fst ecoprobs)" and "set (map fst ecoprobs) = set (map fst spec_ranges)"
  shows "subscripts (PyDict (pagerdict s')) [Key ''alerts'', Key ''fatality'', Key ''bins'']
           = Inr (PyList (map spec_bin fatprobs))
       \<and> subscripts (PyDict (pagerdict s')) [Key ''alerts'', Key ''economic'', Key ''bins'']
           = Inr (PyList (map spec_bin ecoprobs))
       \<and> length (map spec_bin fatprobs) = 7 \<and> length (map spec_bin ecoprobs) = 7"
proof -
  from validate_sections [OF assms(1)] obtain al where
    al: "priv_setAlerts s = Inr al" and rep: "getitem (pagerdict s') ''alerts'' = Inr al"
    by blast
  from setAlerts_InrD [OF al assms(2-5), unfolded assms(6,7)] obtain fbins ebins where
    fb: "bins_loop fatprobs [] = Inr fbins" and eb: "bins_loop ecoprobs [] = Inr ebins"
    and al_eq: "al = PyDict
         [(''fatality'',
             PyDict [(''type'', PyStr ''fatality''), (''units'', PyStr ''fatalities''),
                     (''gvalue'', getCombinedG fm fr),
                     (''summary'', PyBool (getAlertLevel em er < getAlertLevel fm fr)),
                     (''level'', PyStr (getAlertLevel fm fr)), (''bins'', PyList fbins)]),
          (''economic'',
             PyDict [(''type'', PyStr ''economic''), (''units'', PyStr ''USD''),
                     (''gvalue'', getCombinedG em er),
                     (''summary'', PyBool (\<not> getAlertLevel em er < getAlertLevel fm fr)),
                     (''level'', PyStr (getAlertLevel em er)), (''bins'', PyList ebins)])]"
    by blast
  from assms(9) have "set (map fst fatprobs) \<subseteq> set (map fst spec_ranges)" by simp
  from bins_loop_spec [OF this, of "[]"] fb have fbins: "fbins = map spec_bin fatprobs" by simp
  from assms(11) have "set (map fst ecoprobs) \<subseteq> set (map fst spec_ranges)" by simp
  from bins_loop_spec [OF this, of "[]"] eb have ebins: "ebins = map spec_bin ecoprobs" by simp
  have 1: "subscripts (PyDict (pagerdict s')) [Key ''alerts'', Key ''fatality'', Key ''bins'']
             = Inr (PyList (map spec_bin fatprobs))"
    using rep by (simp add: subscript_def al_eq getitem_def fbins)
  have 2: "subscripts (PyDict (pagerdict s')) [Key ''alerts'', Key ''economic'', Key ''bins'']
             = Inr (PyList (map spec_bin ecoprobs))"
    using rep by (simp add: subscript_def al_eq getitem_def ebins)
  from 1 2 seven_labels [OF assms(8,9)] seven_labels [OF assms(10,11)] show ?thesis by simp
qed

theorem alert_bins_witness:
  "subscripts (PyDict (pagerdict (snd (validate demo_env
       (demo_registry ''green'' ''orange'' [0, 0, 0, 0, 0, 0, 0, 0, 1200, 0])))))
     [Key ''alerts'', Key ''fatality'', Key ''bins''] = Inr (PyList (map spec_bin demo_probs))
   \<and> subscripts (PyDict (pagerdict (snd (validate demo_env
       (demo_registry ''green'' ''orange'' [0, 0, 0, 0, 0, 0, 0, 0, 1200, 0])))))
     [Key ''alerts'', Key ''economic'', Key ''bins''] = Inr (PyList (map spec_bin demo_probs))
   \<and> length (map spec_bin demo_probs) = 7"
proof -
  let ?s = "demo_registry ''green'' ''orange'' [0, 0, 0, 0, 0, 0, 0, 0, 1200, 0]"
  have v: "validate demo_env ?s = (Inr (), snd (validate demo_env ?s))"
    by (rule pair_of_fst [OF demo_run_green_orange])
  have fp: "getProbabilities (demo_model ''green'') [(''TotalFatalities'', PyInt 3), (''PH'', PyInt 3)]
              (getCombinedG (demo_model ''green'') [(''TotalFatalities'', PyInt 3), (''PH'', PyInt 3)])
            = demo_probs"
    by (simp add: demo_model_def)
  have ep: "getProbabilities (demo_model ''orange'') [(''TotalDollars'', PyInt 9), (''PH'', PyInt 9)]
              (getCombinedG (demo_model ''orange'') [(''TotalDollars'', PyInt 9), (''PH'', PyInt 9)])
            = demo_probs"
    by (simp add: demo_model_def)
  have d: "distinct (map fst demo_probs)" by (simp add: demo_probs_def)
  have st: "set (map fst demo_probs) = set (map fst spec_ranges)"
    by (simp add: demo_probs_def spec_ranges_def)
  from alert_bins [OF v demo_models fp ep d st d st] show ?thesis by simp
qed

text \<open>
  C8 as stated says that \<^verbatim>\<open>min\<close> and \<^verbatim>\<open>max\<close> are numbers. For the label
  \<^verbatim>\<open>100-1000\<close> the finished report holds the strings \<^verbatim>\<open>'100'\<close> and \<^verbatim>\<open>'1000'\<close>.
\<close>

theorem alert_bins_numeric_counterexample:
  "subscripts (PyDict (pagerdict (snd (validate demo_env
       (demo_registry ''green'' ''orange'' [0, 0, 0, 0, 0, 0, 0, 0, 1200, 0])))))
     [Key ''alerts'', Key ''fatality'', Key ''bins'', Index 3, Key ''min''] = Inr (PyStr ''100'')
   \<and> subscripts (PyDict (pagerdict (snd (validate demo_env
       (demo_registry ''green'' ''orange'' [0, 0, 0, 0, 0, 0, 0, 0, 1200, 0])))))
     [Key ''alerts'', Key ''fatality'', Key ''bins'', Index 3, Key ''min''] \<noteq> Inr (PyInt 100)
   \<and> subscripts (PyDict (pagerdict (snd (validate demo_env
       (demo_registry ''green'' ''orange'' [0, 0, 0, 0, 0, 0, 0, 0, 1200, 0])))))
     [Key ''alerts'', Key ''fatality'', Key ''bins'', Index 3, Key ''max''] = Inr (PyStr ''1000'')
   \<and> subscripts (PyDict (pagerdict (snd (validate demo_env
       (demo_registry ''green'' ''orange'' [0, 0, 0, 0, 0, 0, 0, 0, 1200, 0])))))
     [Key ''alerts'', Key ''fatality'', Key ''bins'', Index 3, Key ''max''] \<noteq> Inr (PyInt 1000)"
  by (simp add: run_defs cong: thenE_weak_cong andThen_weak_cong)


section \<open>Exposure reshaping\<close>

lemma country_loop_filter:
  "country_loop t ex rows = rows @ map country_row (filter (\<lambda>entry. fst entry \<noteq> t) ex)"
  by (induction ex arbitrary: rows) (auto simp: country_row_def)

lemma filter_other_keys:
  assumes "set (map fst ex) = insert t (set codes)" and "t \<notin> set codes"
  shows "set (map fst (filter (\<lambda>entry. fst entry \<noteq> t) ex)) = set codes"
  using assms by auto

lemma length_other_keys:
  assumes "distinct (map fst ex)" and "set (map fst ex) = insert t (set codes)"
    and "distinct codes" and "t \<notin> set codes"
  shows "length (filter (\<lambda>entry. fst entry \<noteq> t) ex) = length codes"
proof -
  let ?rest = "filter (\<lambda>entry. fst entry \<noteq> t) ex"
  have "distinct (map fst ?rest)" using assms(1) by (rule distinct_map_filter)
  then have "card (set (map fst ?rest)) = length (map fst ?rest)" by (rule distinct_card)
  moreover have "card (set codes) = length codes" using assms(3) by (rule distinct_card)
  moreover have "set (map fst ?rest) = set codes" by (rule filter_other_keys [OF assms(2,4)])
  ultimately have "length (map fst ?rest) = length codes" by simp
  then show ?thesis by simp
qed

text \<open>
  C9. For every exposure table whose keys are the total key and n distinct country codes
  (\<open>codes\<close>, with \<open>n = length codes\<close>), for the population and for the economic table
  alike, the reshaped section has the \<^verbatim>\<open>mmi\<close> list 1 to 10, the total key's sequence
  unchanged as \<^verbatim>\<open>aggregated_exposure\<close>, and a per-country list in the table's order with
  exactly n entries, one per country code with its sequence, the total key not among them.
\<close>

theorem exposure_reshaping:
  assumes "exposure s = Some ex" and "econ_exposure s = Some econ_ex"
    and "distinct (map fst ex)" and "set (map fst ex) = insert ''TotalExposure'' (set codes)"
    and "distinct codes" and "''TotalExposure'' \<notin> set codes"
    and "map_of ex ''TotalExposure'' = Some tot"
    and "distinct (map fst econ_ex)"
    and "set (map fst econ_ex) = insert ''TotalEconomicExposure'' (set econ_codes)"
    and "distinct econ_codes" and "''TotalEconomicExposure'' \<notin> set econ_codes"
    and "map_of econ_ex ''TotalEconomicExposure'' = Some econ_tot"
  shows "priv_setPopulationExposure s =
           Inr (PyDict
             [(''mmi'', PyList (map PyInt [1, 2, 3, 4, 5, 6, 7, 8, 9, 10])),
              (''aggregated_exposure'', PyList (map PyInt tot)),
              (''country_exposures'',
                 PyList (map country_row (filter (\<lambda>entry. fst entry \<noteq> ''TotalExposure'') ex)))])
       \<and> length (filter (\<lambda>entry. fst entry \<noteq> ''TotalExposure'') ex) = length codes
       \<and> set (map fst (filter (\<lambda>entry. fst entry \<noteq> ''TotalExposure'') ex)) = set codes
       \<and> priv_setEconomicExposure s =
           Inr (PyDict
             [(''mmi'', PyList (map PyInt [1, 2, 3, 4, 5, 6, 7, 8, 9, 10])),
              (''aggregated_exposure'', PyList (map PyInt econ_tot)),
              (''country_exposures'',
                 PyList (map country_row
                   (filter (\<lambda>entry. fst entry \<noteq> ''TotalEconomicExposure'') econ_ex)))])
       \<and> length (filter (\<lambda>entry. fst entry \<noteq> ''TotalEconomicExposure'') econ_ex) = length econ_codes
       \<and> set (map fst (filter (\<lambda>entry. fst entry \<noteq> ''TotalEconomicExposure'') econ_ex))
           = set econ_codes"
proof -
  have upto10: "[1..10] = [1, 2, 3, 4, 5, 6, 7, 8, 9, 10 :: int]"
    by (simp add: upto_rec1)
  have 1: "priv_setPopulationExposure s =
           Inr (PyDict
             [(''mmi'', PyList (map PyInt [1, 2, 3, 4, 5, 6, 7, 8, 9, 10])),
              (''aggregated_exposure'', PyList (map PyInt tot)),
              (''country_exposures'',
                 PyList (map country_row (filter (\<lambda>entry. fst entry \<noteq> ''TotalExposure'') ex)))])"
    using assms(1,7) by (simp add: priv_setPopulationExposure_def getitem_def country_loop_filter upto10)
  have 2: "priv_setEconomicExposure s =
           Inr (PyDict
             [(''mmi'', PyList (map PyInt [1, 2, 3, 4, 5, 6, 7, 8, 9, 10])),
              (''aggregated_exposure'', PyList (map PyInt econ_tot)),
              (''country_exposures'',
                 PyList (map country_row
                   (filter (\<lambda>entry. fst entry \<noteq> ''TotalEconomicExposure'') econ_ex)))])"
    using assms(2,12) by (simp add: priv_setEconomicExposure_def getitem_def country_loop_filter upto10)
  from 1 2 length_other_keys [OF assms(3-6)] filter_other_keys [OF assms(4,6)]
    length_other_keys [OF assms(8-11)] filter_other_keys [OF assms(9,11)]
  show ?thesis by simp
qed

lemma demo_exposures:
  "exposure (snd (setExposure (demo_exposure [0, 0, 0, 0, 0, 0, 0, 0, 1200, 0]) demo_econ_exposure PagerData_init))
     = Some (demo_exposure [0, 0, 0, 0, 0, 0, 0, 0, 1200, 0])"
  "econ_exposure (snd (setExposure (demo_exposure [0, 0, 0, 0, 0, 0, 0, 0, 1200, 0]) demo_econ_exposure PagerData_init))
     = Some demo_econ_exposure"
  by (simp_all add: setExposure_def priv_get_maxmmi_def demo_exposure_def getitem_def
        list_index_def MINEXP_def)

theorem exposure_reshaping_witness:
  "priv_setPopulationExposure
     (snd (setExposure (demo_exposure [0, 0, 0, 0, 0, 0, 0, 0, 1200, 0]) demo_econ_exposure PagerData_init)) =
     Inr (PyDict
       [(''mmi'', PyList (map PyInt [1, 2, 3, 4, 5, 6, 7, 8, 9, 10])),
        (''aggregated_exposure'', PyList (map PyInt [0, 0, 0, 0, 0, 0, 0, 0, 1200, 0])),
        (''country_exposures'',
           PyList [PyDict [(''country_code'', PyStr ''PH''),
                           (''exposure'', PyList (map PyInt [0, 0, 0, 0, 0, 0, 0, 0, 1200, 0]))]])])
   \<and> priv_setEconomicExposure
     (snd (setExposure (demo_exposure [0, 0, 0, 0, 0, 0, 0, 0, 1200, 0]) demo_econ_exposure PagerData_init)) =
     Inr (PyDict
       [(''mmi'', PyList (map PyInt [1, 2, 3, 4, 5, 6, 7, 8, 9, 10])),
        (''aggregated_exposure'', PyList (map PyInt [0, 0, 0, 0, 0, 0, 0, 0, 1200, 0])),
        (''country_exposures'',
           PyList [PyDict [(''country_code'', PyStr ''PH''),
                           (''exposure'', PyList (map PyInt [0, 0, 0, 0, 0, 0, 0, 0, 1200, 0]))]])])"
proof -
  let ?tot = "[0, 0, 0, 0, 0, 0, 0, 0, 1200, 0 :: int]"
  have a: "distinct (map fst (demo_exposure ?tot))"
    "set (map fst (demo_exposure ?tot)) = insert ''TotalExposure'' (set [''PH''])"
    "distinct [''PH'']" "''TotalExposure'' \<notin> set [''PH'']"
    "map_of (demo_exposure ?tot) ''TotalExposure'' = Some ?tot"
    by (simp_all add: demo_exposure_def)
  have b: "distinct (map fst demo_econ_exposure)"
    "set (map fst demo_econ_exposure) = insert ''TotalEconomicExposure'' (set [''PH''])"
    "distinct [''PH'']" "''TotalEconomicExposure'' \<notin> set [''PH'']"
    "map_of demo_econ_exposure ''TotalEconomicExposure'' = Some ?tot"
    by (simp_all add: demo_econ_exposure_def)
  note th = exposure_reshaping [OF demo_exposures a b]
  note pop = th [THEN conjunct1]
  note eco = th [THEN conjunct2, THEN conjunct2, THEN conjunct2, THEN conjunct1]
  have r1: "map country_row (filter (\<lambda>entry. fst entry \<noteq> ''TotalExposure'') (demo_exposure ?tot))
              = [PyDict [(''country_code'', PyStr ''PH''), (''exposure'', PyList (map PyInt ?tot))]]"
    by (simp add: demo_exposure_def country_row_def)
  have r2: "map country_row (filter (\<lambda>entry. fst entry \<noteq> ''TotalEconomicExposure'') demo_econ_exposure)
              = [PyDict [(''country_code'', PyStr ''PH''), (''exposure'', PyList (map PyInt ?tot))]]"
    by (simp add: demo_econ_exposure_def country_row_def)
  from pop eco show ?thesis unfolding r1 r2 by (rule conjI)
qed

section \<open>The cached maximum intensity\<close>

lemma setExposure_caches_count:
  assumes "setExposure ex econ_ex s = (Inr (), s1)"
  shows "\<exists>m n. priv_get_maxmmi ex = Inr (m, n) \<and> maxmmi s1 = Some n \<and> exposure s1 = Some ex"
  using assms by (auto simp: setExposure_def split: sum.splits prod.splits)

lemma setPager_stores_maxmmi:
  assumes "validate env s = (Inr (), s')" and "exposure s = Some ex"
  shows "\<exists>m n. priv_get_maxmmi ex = Inr (m, n)
           \<and> subscripts (PyDict (pagerdict s')) [Key ''pager'', Key ''maxmmi''] = Inr (PyInt m)
           \<and> nmmi s' = Some n"
proof -
  from validate_sections [OF assms(1)] obtain pg0 n pg where
    head: "setPager_head env s = Inr (pg0, n)" and tail: "setPager_tail env s pg0 = Inr pg"
    and rep: "getitem (pagerdict s') ''pager'' = Inr pg" and n: "nmmi s' = Some n"
    by blast
  from setPager_head_maxmmi [OF head assms(2)] obtain m where
    m: "priv_get_maxmmi ex = Inr (m, n)" and pg0: "map_of pg0 ''maxmmi'' = Some (PyInt m)"
    by blast
  from setPager_tail_keeps [OF tail pg0] rep
  have "subscripts (PyDict (pagerdict s')) [Key ''pager'', Key ''maxmmi''] = Inr (PyInt m)"
    by (simp add: subscript_def)
  with m n show ?thesis by blast
qed

text \<open>
  C5. \<^verbatim>\<open>setExposure\<close> and \<^verbatim>\<open>_setPager\<close> call the same \<^verbatim>\<open>_get_maxmmi\<close> on the same
  table, so the two returned pairs are equal (lemmas \<open>setExposure_caches_count\<close> and
  \<open>setPager_stores_maxmmi\<close>). But \<^verbatim>\<open>setExposure\<close> unpacks the pair as
  \<^verbatim>\<open>nmmi,self._maxmmi\<close>, the other way round than \<^verbatim>\<open>_setPager\<close> does, so the attribute
  \<^verbatim>\<open>_maxmmi\<close> it caches holds the count and the index is dropped. On the totals
  0,0,0,0,0,0,0,0,999,1500 the cached \<^verbatim>\<open>_maxmmi\<close> is 1500, while the finished report
  has \<^verbatim>\<open>maxmmi\<close> 10 and \<^verbatim>\<open>_nmmi\<close> is 1500.
\<close>

theorem cached_maxmmi_is_the_count:
  "maxmmi (demo_registry ''green'' ''orange'' [0, 0, 0, 0, 0, 0, 0, 0, 999, 1500]) = Some 1500
   \<and> fst (validate demo_env (demo_registry ''green'' ''orange'' [0, 0, 0, 0, 0, 0, 0, 0, 999, 1500])) = Inr ()
   \<and> subscripts (PyDict (pagerdict (snd (validate demo_env
         (demo_registry ''green'' ''orange'' [0, 0, 0, 0, 0, 0, 0, 0, 999, 1500])))))
       [Key ''pager'', Key ''maxmmi''] = Inr (PyInt 10)
   \<and> nmmi (snd (validate demo_env
         (demo_registry ''green'' ''orange'' [0, 0, 0, 0, 0, 0, 0, 0, 999, 1500]))) = Some 1500"
  by (simp add: run_defs cong: thenE_weak_cong andThen_weak_cong)

section \<open>The presence checks of validate\<close>

lemmas setter_defs =
  after_setters_def demo_calls_def demo_exposure_def demo_econ_exposure_def
  setMapInfo_def setComments_def setModelResults_def setExposure_def setInputs_def
  PagerData_init_def priv_get_maxmmi_def getitem_def list_index_def MINEXP_def

lemma demo_all_but_comments:
  "input_set (after_setters (take 3 (demo_calls ''green'' ''orange'' [0, 0, 0, 0, 0, 0, 0, 0, 1200, 0])
        @ [SetMapInfo (PyStr ''cities1000.txt'') (PyInt 5)]))"
  "exposure_set (after_setters (take 3 (demo_calls ''green'' ''orange'' [0, 0, 0, 0, 0, 0, 0, 0, 1200, 0])
        @ [SetMapInfo (PyStr ''cities1000.txt'') (PyInt 5)]))"
  "models_set (after_setters (take 3 (demo_calls ''green'' ''orange'' [0, 0, 0, 0, 0, 0, 0, 0, 1200, 0])
        @ [SetMapInfo (PyStr ''cities1000.txt'') (PyInt 5)]))"
  "\<not> comments_set (after_setters (take 3 (demo_calls ''green'' ''orange'' [0, 0, 0, 0, 0, 0, 0, 0, 1200, 0])
        @ [SetMapInfo (PyStr ''cities1000.txt'') (PyInt 5)]))"
  by (simp_all add: setter_defs)

lemma validate_missing_group:
  assumes "\<not> (input_set s \<and> exposure_set s \<and> models_set s \<and> comments_set s)"
  shows "validate env s = (Inl (NameError ''PagerException''), s)"
  using assms by (auto simp: validate_def raise_PagerException_def)

text \<open>
  C6. When a mandatory group is missing, \<^verbatim>\<open>validate\<close> reaches one of its four
  \<^verbatim>\<open>raise PagerException(...)\<close> statements, and the exception meant to name the missing
  group is never built: the name \<^verbatim>\<open>PagerException\<close> is not bound in the module, so a
  NameError is raised instead (lemma \<open>validate_missing_group\<close>). On a fresh object on which
  every setter but \<^verbatim>\<open>setComments\<close> was called, \<^verbatim>\<open>validate\<close> raises that NameError,
  not an error naming the comments group, and leaves the object unchanged.
\<close>

theorem validate_without_comments_raises_NameError:
  "input_set (after_setters (take 3 (demo_calls ''green'' ''orange'' [0, 0, 0, 0, 0, 0, 0, 0, 1200, 0])
        @ [SetMapInfo (PyStr ''cities1000.txt'') (PyInt 5)]))
   \<and> exposure_set (after_setters (take 3 (demo_calls ''green'' ''orange'' [0, 0, 0, 0, 0, 0, 0, 0, 1200, 0])
        @ [SetMapInfo (PyStr ''cities1000.txt'') (PyInt 5)]))
   \<and> models_set (after_setters (take 3 (demo_calls ''green'' ''orange'' [0, 0, 0, 0, 0, 0, 0, 0, 1200, 0])
        @ [SetMapInfo (PyStr ''cities1000.txt'') (PyInt 5)]))
   \<and> \<not> comments_set (after_setters (take 3 (demo_calls ''green'' ''orange'' [0, 0, 0, 0, 0, 0, 0, 0, 1200, 0])
        @ [SetMapInfo (PyStr ''cities1000.txt'') (PyInt 5)]))
   \<and> validate demo_env (after_setters (take 3 (demo_calls ''green'' ''orange'' [0, 0, 0, 0, 0, 0, 0, 0, 1200, 0])
        @ [SetMapInfo (PyStr ''cities1000.txt'') (PyInt 5)]))
     = (Inl (NameError ''PagerException''),
        after_setters (take 3 (demo_calls ''green'' ''orange'' [0, 0, 0, 0, 0, 0, 0, 0, 1200, 0])
        @ [SetMapInfo (PyStr ''cities1000.txt'') (PyInt 5)]))"
proof -
  have "validate demo_env (after_setters (take 3 (demo_calls ''green'' ''orange'' [0, 0, 0, 0, 0, 0, 0, 0, 1200, 0])
        @ [SetMapInfo (PyStr ''cities1000.txt'') (PyInt 5)]))
     = (Inl (NameError ''PagerException''),
        after_setters (take 3 (demo_calls ''green'' ''orange'' [0, 0, 0, 0, 0, 0, 0, 0, 1200, 0])
        @ [SetMapInfo (PyStr ''cities1000.txt'') (PyInt 5)]))"
    by (rule validate_missing_group) (simp add: demo_all_but_comments)
  with demo_all_but_comments show ?thesis by (intro conjI)
qed

section \<open>Getters before validate\<close>

lemma call_setter_pagerdict: "pagerdict (call_setter s c) = pagerdict s"
  by (cases c)
     (simp_all add: setInputs_def setExposure_def setComments_def setModelResults_def
        setMapInfo_def split: sum.splits prod.splits)

lemma foldl_setters_pagerdict: "pagerdict (foldl call_setter s calls) = pagerdict s"
  by (induction calls arbitrary: s) (simp_all add: call_setter_pagerdict)

lemma after_setters_pagerdict: "pagerdict (after_setters calls) = []"
  by (simp add: after_setters_def foldl_setters_pagerdict PagerData_init_def)

text \<open>
  C7. Before \<^verbatim>\<open>validate\<close> has been called, that is after any sequence of setter calls on
  a fresh object, each of the ten getters fails. The class has no exception of its own for
  this: the failure is the KeyError of the lookup of the missing section in the empty report
  dictionary, which is what the specification calls NotFinalizedError.
\<close>

theorem getters_before_validate_fail:
  "getEventInfo (after_setters calls) = Inl (KeyError (StrKey ''event_info''))
   \<and> getImpactComments (after_setters calls) = Inl (KeyError (StrKey ''comments''))
   \<and> getSoftwareVersion (after_setters calls) = Inl (KeyError (StrKey ''pager''))
   \<and> getElapsed (after_setters calls) = Inl (KeyError (StrKey ''pager''))
   \<and> getTotalExposure (after_setters calls) = Inl (KeyError (StrKey ''population_exposure''))
   \<and> getHistoricalTable (after_setters calls) = Inl (KeyError (StrKey ''historical_earthquakes''))
   \<and> getStructureComment (after_setters calls) = Inl (KeyError (StrKey ''comments''))
   \<and> getHistoricalComment (after_setters calls) = Inl (KeyError (StrKey ''comments''))
   \<and> getCityTable (after_setters calls) = Inl (KeyError (StrKey ''city_table''))
   \<and> getSummaryAlert (after_setters calls) = Inl (KeyError (StrKey ''pager''))"
  by (simp add: getEventInfo_def getImpactComments_def getSoftwareVersion_def getElapsed_def
        getTotalExposure_def getHistoricalTable_def getStructureComment_def
        getHistoricalComment_def getCityTable_def getSummaryAlert_def
        after_setters_pagerdict getitem_def)

section \<open>validate without map information\<close>

lemma call_setter_city_file:
  assumes "\<forall>cf mc. c \<noteq> SetMapInfo cf mc"
  shows "city_file (call_setter s c) = city_file s"
  using assms
  by (cases c)
     (simp_all add: setInputs_def setExposure_def setComments_def setModelResults_def
        split: sum.splits prod.splits)

lemma foldl_setters_city_file:
  assumes "\<forall>cf mc. SetMapInfo cf mc \<notin> set calls"
  shows "city_file (foldl call_setter s calls) = city_file s"
  using assms
proof (induction calls arbitrary: s)
  case Nil
  then show ?case by simp
next
  case (Cons c calls)
  then have "\<forall>cf mc. c \<noteq> SetMapInfo cf mc" and "\<forall>cf mc. SetMapInfo cf mc \<notin> set calls"
    by auto
  with Cons.IH [of "call_setter s c"] call_setter_city_file [of c s] show ?case by simp
qed

lemma validate_without_city_file:
  assumes "city_file s = None"
  shows "\<exists>e. fst (validate env s) = Inl e"
proof (cases "fst (validate env s)")
  case (Inl e)
  then show ?thesis by blast
next
  case (Inr u)
  then have "validate env s = (Inr (), snd (validate env s))"
    by (cases "validate env s") simp
  from validate_InrD [OF this] obtain ct where "priv_getCityTable env s = Inr ct"
    by blast
  with assms show ?thesis by (simp add: priv_getCityTable_def)
qed

text \<open>
  C10 (as the code has it). The map information is in effect required: after any sequence
  of setter calls that does not contain \<^verbatim>\<open>setMapInfo\<close>, also one that sets the four
  mandatory groups, \<^verbatim>\<open>validate\<close> fails and no finished report is produced
  (\<^verbatim>\<open>_getCityTable\<close> reads the city file, which only \<^verbatim>\<open>setMapInfo\<close> stores).
\<close>

theorem validate_needs_map_info:
  assumes "\<forall>cf mc. SetMapInfo cf mc \<notin> set calls"
  shows "\<exists>e. fst (validate env (after_setters calls)) = Inl e"
proof -
  from foldl_setters_city_file [OF assms, of PagerData_init]
  have "city_file (after_setters calls :: 'a PagerData) = None"
    by (simp add: after_setters_def PagerData_init_def)
  then show ?thesis by (rule validate_without_city_file)
qed

theorem validate_needs_map_info_witness:
  "(\<forall>cf mc. SetMapInfo cf mc \<notin> set (demo_calls ''green'' ''orange'' [0, 0, 0, 0, 0, 0, 0, 0, 1200, 0]))
   \<and> (\<exists>e. fst (validate demo_env
         (after_setters (demo_calls ''green'' ''orange'' [0, 0, 0, 0, 0, 0, 0, 0, 1200, 0]))) = Inl e)"
proof -
  have h: "\<forall>cf mc. SetMapInfo cf mc \<notin> set (demo_calls ''green'' ''orange'' [0, 0, 0, 0, 0, 0, 0, 0, 1200, 0])"
    by (simp add: demo_calls_def)
  from h validate_needs_map_info [OF h, of demo_env] show ?thesis by blast
qed

text \<open>
  C10 as stated says that \<^verbatim>\<open>validate\<close> does not fail when the four mandatory groups
  are set and \<^verbatim>\<open>setMapInfo\<close> was never called. On the sample run without
  \<^verbatim>\<open>setMapInfo\<close> it raises AttributeError for \<^verbatim>\<open>_city_file\<close>.
\<close>

theorem validate_without_map_info_counterexample:
  "input_set (after_setters (demo_calls ''green'' ''orange'' [0, 0, 0, 0, 0, 0, 0, 0, 1200, 0]))
   \<and> exposure_set (after_setters (demo_calls ''green'' ''orange'' [0, 0, 0, 0, 0, 0, 0, 0, 1200, 0]))
   \<and> models_set (after_setters (demo_calls ''green'' ''orange'' [0, 0, 0, 0, 0, 0, 0, 0, 1200, 0]))
   \<and> comments_set (after_setters (demo_calls ''green'' ''orange'' [0, 0, 0, 0, 0, 0, 0, 0, 1200, 0]))
   \<and> fst (validate demo_env
         (after_setters (demo_calls ''green'' ''orange'' [0, 0, 0, 0, 0, 0, 0, 0, 1200, 0])))
       = Inl (AttributeError ''_city_file'')"
  by (simp add: run_defs cong: thenE_weak_cong andThen_weak_cong)

end
